theory Spec2Isabelle
  imports Complex_Main
begin

section \<open>JavaScript values and built-ins used by the handlers\<close>

text \<open>
  The handlers are JavaScript (AWS Lambda, DynamoDB). Strings are \<open>string\<close>; a value
  that may be \<^verbatim>\<open>null\<close> or \<^verbatim>\<open>undefined\<close> is an \<open>option\<close>. An instant is the
  time value of a JavaScript \<^verbatim>\<open>Date\<close>: milliseconds since the epoch, a \<open>nat\<close>
  (instants before 1970 are not modelled). Where the source uses the ISO text of an
  instant (the digest input, \<^verbatim>\<open>split('T')[0]\<close>, a sort key compared with a request
  parameter) the model applies \<open>toISOString\<close>. A number is an IEEE 754 double, held
  as the rational it denotes: every arithmetic result is rounded to the nearest double
  (\<open>toDouble\<close> below). The time value of a \<^verbatim>\<open>Date\<close> is an integer below
  \<open>8.64e15\<close>, so the difference of two instants is an exact double.
\<close>

definition truthy :: "string option \<Rightarrow> bool" where
  "truthy v = (case v of None \<Rightarrow> False | Some s \<Rightarrow> s \<noteq> [])"

text \<open>\<^verbatim>\<open>a || b\<close> on strings that may be absent.\<close>

definition orElse :: "string option \<Rightarrow> string option \<Rightarrow> string option" where
  "orElse a b = (if truthy a then a else b)"

definition digitChar :: "nat \<Rightarrow> char" where
  "digitChar d = ''0123456789'' ! (d mod 10)"

text \<open>The decimal text of a number, as a template literal renders it.\<close>

function showNat :: "nat \<Rightarrow> string" where
  "showNat n = (if n < 10 then [digitChar n] else showNat (n div 10) @ [digitChar n])"
  by pat_completeness auto
termination
  by (relation "measure id") auto

definition pad2 :: "nat \<Rightarrow> string" where
  "pad2 n = [digitChar (n div 10), digitChar n]"

definition pad3 :: "nat \<Rightarrow> string" where
  "pad3 n = [digitChar (n div 100), digitChar (n div 10), digitChar n]"

definition pad4 :: "nat \<Rightarrow> string" where
  "pad4 n = [digitChar (n div 1000), digitChar (n div 100), digitChar (n div 10), digitChar n]"

text \<open>
  The civil date (year, month, day) of a day number counted from 1970-01-01, in the
  proleptic Gregorian calendar that \<^verbatim>\<open>Date\<close> uses.
\<close>

definition civilFromDays :: "nat \<Rightarrow> nat \<times> nat \<times> nat" where
  "civilFromDays days =
     (let z = days + 719468;
          era = z div 146097;
          doe = z mod 146097;
          yoe = (doe - doe div 1460 + doe div 36524 - doe div 146096) div 365;
          y = yoe + era * 400;
          doy = doe - (365 * yoe + yoe div 4 - yoe div 100);
          mp = (5 * doy + 2) div 153;
          d = doy - (153 * mp + 2) div 5 + 1;
          m = (if mp < 10 then mp + 3 else mp - 9)
      in (if m \<le> 2 then y + 1 else y, m, d))"

text \<open>
  \<^verbatim>\<open>Date.prototype.toISOString\<close>: \<^verbatim>\<open>YYYY-MM-DDTHH:mm:ss.sssZ\<close>, for the years
  1970 to 9999.
\<close>

definition toISOString :: "nat \<Rightarrow> string" where
  "toISOString ms =
     (let r = ms mod 86400000 in
      case civilFromDays (ms div 86400000) of (y, m, d) \<Rightarrow>
        pad4 y @ ''-'' @ pad2 m @ ''-'' @ pad2 d @ ''T'' @
        pad2 (r div 3600000) @ '':'' @ pad2 (r div 60000 mod 60) @ '':'' @
        pad2 (r div 1000 mod 60) @ ''.'' @ pad3 (r mod 1000) @ ''Z'')"

text \<open>\<^verbatim>\<open>s.split('T')[0]\<close>: the text before the first \<open>T\<close>.\<close>

definition splitT0 :: "string \<Rightarrow> string" where
  "splitT0 s = takeWhile (\<lambda>c. c \<noteq> CHR ''T'') s"

definition dateOnly :: "nat \<Rightarrow> string" where
  "dateOnly ms = splitT0 (toISOString ms)"

text \<open>\<^verbatim>\<open>s.includes(sub)\<close>: \<open>sub\<close> occurs in \<open>s\<close> as a contiguous run.\<close>

fun startsWith :: "string \<Rightarrow> string \<Rightarrow> bool" where
  "startsWith s [] = True"
| "startsWith [] (c # cs) = False"
| "startsWith (d # ds) (c # cs) = (d = c \<and> startsWith ds cs)"

fun includesStr :: "string \<Rightarrow> string \<Rightarrow> bool" where
  "includesStr [] sub = (sub = [])"
| "includesStr (c # cs) sub = (startsWith (c # cs) sub \<or> includesStr cs sub)"

text \<open>
  The order DynamoDB puts on string sort keys: bytewise lexicographic, a proper prefix
  before its extensions.
\<close>

fun strLe :: "string \<Rightarrow> string \<Rightarrow> bool" where
  "strLe [] t = True"
| "strLe (c # cs) [] = False"
| "strLe (c # cs) (d # ds) =
     ((of_char c :: nat) < of_char d \<or> (c = d \<and> strLe cs ds))"

definition between :: "string \<Rightarrow> string \<Rightarrow> string \<Rightarrow> bool" where
  "between sk lo hi = (strLe lo sk \<and> strLe sk hi)"

text \<open>
  The binary exponent of a positive number: the \<open>e\<close> with \<open>2^e \<le> x < 2^(e+1)\<close>.
\<close>

function ieeeExponent :: "rat \<Rightarrow> int" where
  "ieeeExponent x =
     (if x \<le> 0 then 0
      else if 2 \<le> x then ieeeExponent (x / 2) + 1
      else if x < 1 then ieeeExponent (x * 2) - 1
      else 0)"
  by pat_completeness auto
termination
proof (relation "measure (\<lambda>x. if 1 \<le> x then nat \<lfloor>x\<rfloor> else nat \<lceil>1 / x\<rceil>)")
  show "wf (measure (\<lambda>x::rat. if 1 \<le> x then nat \<lfloor>x\<rfloor> else nat \<lceil>1 / x\<rceil>))" by simp
next
  fix x :: rat
  assume a: "\<not> x \<le> 0" "2 \<le> x"
  have "\<lfloor>x / 2\<rfloor> < \<lfloor>x\<rfloor>" using a by (simp add: floor_less_iff) linarith
  moreover have "1 \<le> \<lfloor>x / 2\<rfloor>" using a by (simp add: le_floor_iff)
  ultimately show "(x / 2, x) \<in> measure (\<lambda>x. if 1 \<le> x then nat \<lfloor>x\<rfloor> else nat \<lceil>1 / x\<rceil>)"
    using a by simp
next
  fix x :: rat
  assume a: "\<not> x \<le> 0" "\<not> 2 \<le> x" "x < 1"
  show "(x * 2, x) \<in> measure (\<lambda>x. if 1 \<le> x then nat \<lfloor>x\<rfloor> else nat \<lceil>1 / x\<rceil>)"
  proof (cases "1 \<le> x * 2")
    case True
    have "\<lfloor>x * 2\<rfloor> = 1" using a True by (intro floor_unique) simp_all
    moreover have "1 < 1 / x" using a by simp
    then have "2 \<le> \<lceil>1 / x\<rceil>" by (simp add: le_ceiling_iff less_ceiling_iff)
    ultimately show ?thesis using True a by simp
  next
    case False
    define y where "y = 1 / x"
    define c where "c = \<lceil>y\<rceil>"
    have cl: "y \<le> of_int c" unfolding c_def by (rule le_of_int_ceiling)
    have xpos: "0 < x" using a by simp
    have "x * 2 < 1" using False by simp
    then have "2 < 1 / x" using xpos by (simp add: field_simps)
    then have y2: "2 < y" unfolding y_def .
    have "y / 2 \<le> of_int c - 1" using cl y2 by linarith
    then have "y / 2 \<le> of_int (c - 1)" by simp
    then have h: "\<lceil>y / 2\<rceil> \<le> c - 1" by (simp only: ceiling_le_iff)
    have eq: "1 / (x * 2) = y / 2" unfolding y_def by simp
    have cpos: "0 < c" using cl y2 by (simp add: c_def less_ceiling_iff)
    have "nat \<lceil>1 / (x * 2)\<rceil> < nat c" unfolding eq using h cpos by linarith
    then show ?thesis using False a unfolding c_def y_def by simp
  qed
qed

declare ieeeExponent.simps [simp del]

text \<open>The nearest integer, a tie going to the even one.\<close>

definition roundTiesToEven :: "rat \<Rightarrow> int" where
  "roundTiesToEven y =
     (let f = \<lfloor>y\<rfloor>; r = y - of_int f
      in if r < 1 / 2 then f else if 1 / 2 < r then f + 1 else if even f then f else f + 1)"

text \<open>
  The double nearest to a number (round to nearest, ties to even): the number is
  rounded to 53 significant bits. Subnormal numbers and overflow are not modelled;
  hours and minutes are far from both.
\<close>

definition toDouble :: "rat \<Rightarrow> rat" where
  "toDouble x =
     (if x = 0 then 0
      else let u = 2 powi (ieeeExponent \<bar>x\<bar> - 52)
           in sgn x * (of_int (roundTiesToEven (\<bar>x\<bar> / u)) * u))"

text \<open>The arithmetic of doubles: \<^verbatim>\<open>a + b\<close>, \<^verbatim>\<open>a - b\<close>, \<^verbatim>\<open>a / b\<close>.\<close>

definition numAdd :: "rat \<Rightarrow> rat \<Rightarrow> rat" where
  "numAdd a b = toDouble (a + b)"

definition numSub :: "rat \<Rightarrow> rat \<Rightarrow> rat" where
  "numSub a b = toDouble (a - b)"

definition numDiv :: "rat \<Rightarrow> rat \<Rightarrow> rat" where
  "numDiv a b = toDouble (a / b)"

text \<open>\<^verbatim>\<open>xs.reduce((acc, x) => acc + x, 0)\<close>, and a total built by \<^verbatim>\<open>+=\<close> from 0.\<close>

definition numSum :: "rat list \<Rightarrow> rat" where
  "numSum xs = foldl numAdd 0 xs"

text \<open>
  \<^verbatim>\<open>x.toFixed(k)\<close> writes the multiple of \<open>10^-k\<close> nearest to the exact value
  of the double (of two equally near, the larger in magnitude); \<open>toFixedDecimal\<close> is
  the number that text denotes. \<^verbatim>\<open>parseFloat(x.toFixed(k))\<close> reads the nearest
  double back.
\<close>

definition toFixedDecimal :: "nat \<Rightarrow> rat \<Rightarrow> rat" where
  "toFixedDecimal k x = sgn x * (of_int \<lfloor>\<bar>x\<bar> * 10 ^ k + 1 / 2\<rfloor> / 10 ^ k)"

definition toFixed :: "nat \<Rightarrow> rat \<Rightarrow> rat" where
  "toFixed k x = toDouble (toFixedDecimal k x)"


section \<open>Callers, requests and the tables\<close>

text \<open>The Cognito claims of a caller (\<^verbatim>\<open>event.requestContext.authorizer.claims\<close>).\<close>

record claims =
  custom_empId :: "string option"
  custom_role :: "string option"
  sub_claim :: "string option"
  cognito_username :: "string option"
  email :: "string option"

text \<open>
  The API Gateway event: the claims, the path parameter \<open>employeeId\<close>, the query
  string parameters and the fields of the JSON body (string-valued; an absent field is
  \<open>None\<close>).
\<close>

record api_event =
  authorizerClaims :: "claims option"
  pathEmployeeId :: "string option"
  queryStringParameters :: "string \<rightharpoonup> string"
  body :: "string \<rightharpoonup> string"

text \<open>utils/authUtil.js\<close>

definition getRequestingUser :: "api_event \<Rightarrow> string option" where
  "getRequestingUser ev =
     (case authorizerClaims ev of
        None \<Rightarrow> None
      | Some c \<Rightarrow>
          if truthy (custom_empId c) then custom_empId c
          else let fallbackIdentity = orElse (sub_claim c) (orElse (cognito_username c) (email c))
               in if truthy fallbackIdentity then fallbackIdentity else None)"

definition getUserRole :: "api_event \<Rightarrow> string option" where
  "getUserRole ev = (case authorizerClaims ev of None \<Rightarrow> None | Some c \<Rightarrow> custom_role c)"

definition isAuthorized :: "api_event \<Rightarrow> string list \<Rightarrow> bool" where
  "isAuthorized ev allowedRoles =
     (case getUserRole ev of
        None \<Rightarrow> False
      | Some r \<Rightarrow> if r = [] then False else r \<in> set allowedRoles)"

text \<open>
  A stored timestamp event (an item of the log table). The index keys \<open>GSI1PK\<close>,
  \<open>GSI1SK\<close>, \<open>GSI2PK\<close>, \<open>GSI2SK\<close> and \<open>createdAt\<close> are functions of the fields
  kept here; \<open>PK\<close> is the employee and \<open>SK\<close> the timestamp.
\<close>

record timestamp_log =
  employeeId :: string
  timestampType :: string
  timestamp :: nat
  previousTimestamp :: "nat option"
  sequenceNumber :: nat
  wbsCode :: "string option"
  location :: "string option"
  deviceId :: "string option"
  ipAddress :: "string option"
  hashChain :: string
  previousWbsCode :: "string option"
  wbsChangeReason :: "string option"

text \<open>
  The log table: for each partition key (the employee id) its items in ascending order
  of the sort key. The sort key is the ISO text of the timestamp, whose order is the
  order of the instants for the years modelled.
\<close>

type_synonym log_table = "string \<Rightarrow> timestamp_log list"

record wbs_item =
  wbs_wbsCode :: string
  wbs_isActive :: bool
  wbs_departmentId :: "string option"
  wbs_costCenter :: "string option"

text \<open>
  The personnel and organizational tables, as far as the handlers read them: the status
  of an employee's \<open>PERSONAL_DATA\<close> item, the department of the
  \<open>CONTRACT_DETAILS\<close> item, the \<open>METADATA\<close> item of a WBS code, and the result of a
  query of \<open>departmentId-index\<close>.
\<close>

record world =
  personalData :: "string \<rightharpoonup> string option"
  contractDetails :: "string \<rightharpoonup> string option"
  wbsMetadata :: "string \<rightharpoonup> wbs_item"
  departmentIndex :: "string \<Rightarrow> wbs_item list"

text \<open>
  Collaborators whose code is outside the repository's sources: the SHA-256 digest (hex)
  of node's \<open>crypto\<close>, \<open>encrypt\<close> of utils/cryptoUtil, \<open>validateBody\<close> of
  utils/validationUtil (whether the body passes, for a list of required fields), and the
  time value of \<^verbatim>\<open>new Date(s)\<close> for a date text of a request (\<open>None\<close> for NaN).
\<close>

record collab =
  sha256 :: "string \<Rightarrow> string"
  encrypt :: "string \<Rightarrow> string"
  validateBody :: "(string \<rightharpoonup> string) \<Rightarrow> string list \<Rightarrow> bool"
  dateParse :: "string \<Rightarrow> int option"

datatype error =
    Forbidden
  | ValidationFailed
  | EmployeeNotFound
  | EmployeeNotActive
  | WbsNotFound
  | WbsNotActive
  | ContractNotFound
  | UnassignedCategory
  | NoDepartment
  | NoActiveCategoryForDepartment
  | InvalidTransition
  | ExcessiveGap
  | FirstEventMustBeClockIn
  | MissingChangeReason
  | ConditionalCheckFailed
  | Conflict
  | LeaveConflict
  | IncompleteDay
  | MissingClockBoundary
  | ExcessiveWorkDuration
  | ExcessiveBreakDuration
  | NoLogsInRange
  | BadRequest
  | InternalError

section \<open>The ledger: dev-createTimestamp.js\<close>

definition generateHash :: "collab \<Rightarrow> timestamp_log \<Rightarrow> string" where
  "generateHash c logEntry =
     sha256 c (toISOString (timestamp logEntry) @ timestampType logEntry @
               showNat (sequenceNumber logEntry) @
               (case orElse (wbsCode logEntry) (Some []) of None \<Rightarrow> [] | Some w \<Rightarrow> w))"

definition validateEmployee :: "world \<Rightarrow> string \<Rightarrow> error + unit" where
  "validateEmployee w emp =
     (case personalData w emp of
        None \<Rightarrow> Inl EmployeeNotFound
      | Some status \<Rightarrow> if status \<noteq> Some ''ACTIVE'' then Inl EmployeeNotActive else Inr ())"

text \<open>The most recent item of the employee's partition (descending query, limit 1).\<close>

definition getLatestTimestamp :: "log_table \<Rightarrow> string \<Rightarrow> timestamp_log option" where
  "getLatestTimestamp tbl emp = (case tbl emp of [] \<Rightarrow> None | x # xs \<Rightarrow> Some (last (x # xs)))"

definition resolveWbsCode :: "world \<Rightarrow> string \<Rightarrow> error + string" where
  "resolveWbsCode w emp =
     (case contractDetails w emp of
        None \<Rightarrow> Inl InternalError
      | Some departmentId \<Rightarrow>
          if \<not> truthy departmentId then Inl NoDepartment
          else (case filter wbs_isActive (departmentIndex w (the departmentId)) of
                  [] \<Rightarrow> Inl NoActiveCategoryForDepartment
                | x # xs \<Rightarrow> Inr (wbs_wbsCode x)))"

text \<open>utils/wbsValidationUtil.js\<close>

definition validateWbsCodeForEmployee :: "world \<Rightarrow> string \<Rightarrow> string \<Rightarrow> error + unit" where
  "validateWbsCodeForEmployee w code emp =
     (case wbsMetadata w code of
        None \<Rightarrow> Inl WbsNotFound
      | Some wbsData \<Rightarrow>
          if \<not> wbs_isActive wbsData then Inl WbsNotActive
          else (case contractDetails w emp of
                  None \<Rightarrow> Inl ContractNotFound
                | Some employeeDepartmentId \<Rightarrow>
                    if wbs_departmentId wbsData \<noteq> employeeDepartmentId then Inl UnassignedCategory
                    else Inr ()))"

text \<open>The table of legal next actions, keyed by the last action.\<close>

definition validTransitions :: "string \<Rightarrow> string list option" where
  "validTransitions lastAction =
     (if lastAction = ''CLOCK_IN'' then Some [''BREAK_START'', ''WBS_CHANGE'', ''CLOCK_OUT'']
      else if lastAction = ''CLOCK_OUT'' then Some [''CLOCK_IN'']
      else if lastAction = ''BREAK_START'' then Some [''BREAK_END'', ''WBS_CHANGE'']
      else if lastAction = ''BREAK_END'' then Some [''BREAK_START'', ''WBS_CHANGE'', ''CLOCK_OUT'']
      else if lastAction = ''WBS_CHANGE'' then Some [''BREAK_START'', ''WBS_CHANGE'', ''CLOCK_OUT'']
      else None)"

text \<open>
  \<^verbatim>\<open>PutItem\<close> under \<^verbatim>\<open>attribute_not_exists(PK) AND attribute_not_exists(SK)\<close>: the
  write fails when the partition holds an item with the same sort key, and otherwise
  puts the item at its place in the order of the sort keys.
\<close>

definition putLog :: "log_table \<Rightarrow> timestamp_log \<Rightarrow> error + log_table" where
  "putLog tbl item =
     (if timestamp item \<in> set (map timestamp (tbl (employeeId item))) then Inl ConditionalCheckFailed
      else Inr (tbl (employeeId item := insort_key timestamp item (tbl (employeeId item)))))"

text \<open>Step 2 of the handler: the work-category code checked or resolved.\<close>

definition resolveRequestWbs :: "world \<Rightarrow> string \<Rightarrow> string option \<Rightarrow> string option \<Rightarrow> error + string option" where
  "resolveRequestWbs w emp ty code =
     (if truthy code then
        (case validateWbsCodeForEmployee w (the code) emp of
           Inl e \<Rightarrow> Inl e
         | Inr u \<Rightarrow> Inr code)
      else if ty \<in> {Some ''CLOCK_IN'', Some ''BREAK_END''} then
        (case resolveWbsCode w emp of Inl e \<Rightarrow> Inl e | Inr r \<Rightarrow> Inr (Some r))
      else Inr code)"

text \<open>
  Step 3: the sequence number, the previous timestamp and the hash chain of the new
  event, from the latest one; the state machine and the gap rule.
\<close>

definition chainFields :: "collab \<Rightarrow> timestamp_log option \<Rightarrow> string option \<Rightarrow> nat \<Rightarrow> error + (nat \<times> nat option \<times> string)" where
  "chainFields c latestLog ty now =
     (case latestLog of
        Some l \<Rightarrow>
          (case validTransitions (timestampType l) of
             None \<Rightarrow> Inl InvalidTransition
           | Some allowed \<Rightarrow>
               if ty \<notin> set (map Some allowed) then Inl InvalidTransition
               else if int now - int (timestamp l) > 24 * 60 * 60 * 1000 then Inl ExcessiveGap
               else Inr (sequenceNumber l + 1, Some (timestamp l), generateHash c l))
      | None \<Rightarrow>
          if ty \<noteq> Some ''CLOCK_IN'' then Inl FirstEventMustBeClockIn
          else Inr (1, None, ''GENESIS''))"

text \<open>Step 4: the item written for an accepted request.\<close>

definition buildItem :: "collab \<Rightarrow> api_event \<Rightarrow> string \<Rightarrow> string option \<Rightarrow> timestamp_log option \<Rightarrow> nat \<Rightarrow> nat \<Rightarrow> nat option \<Rightarrow> string \<Rightarrow> timestamp_log" where
  "buildItem c ev emp code latestLog now seq prev h =
     \<lparr> employeeId = emp,
       timestampType = the (body ev ''timestampType''),
       timestamp = now,
       previousTimestamp = prev,
       sequenceNumber = seq,
       wbsCode = orElse code (orElse (case latestLog of None \<Rightarrow> None | Some l \<Rightarrow> wbsCode l) None),
       location = (if truthy (body ev ''location'') then Some (encrypt c (the (body ev ''location''))) else None),
       deviceId = body ev ''deviceId'',
       ipAddress = body ev ''ipAddress'',
       hashChain = h,
       previousWbsCode = (if body ev ''timestampType'' = Some ''WBS_CHANGE''
                          then (case latestLog of None \<Rightarrow> None | Some l \<Rightarrow> wbsCode l) else None),
       wbsChangeReason = (if body ev ''timestampType'' = Some ''WBS_CHANGE''
                          then body ev ''wbsChangeReason'' else None) \<rparr>"

text \<open>
  The handler. \<open>now\<close> is the clock reading \<^verbatim>\<open>new Date()\<close> of the invocation. The
  result is the response (the error, or the timestamp recorded) and the log table after
  the call.
\<close>

definition createTimestamp :: "collab \<Rightarrow> world \<Rightarrow> nat \<Rightarrow> api_event \<Rightarrow> log_table \<Rightarrow> (error + nat) \<times> log_table" where
  "createTimestamp c w now ev tbl =
     (if \<not> isAuthorized ev [''employee''] then (Inl Forbidden, tbl)
      else if \<not> validateBody c (body ev) [''employeeId'', ''timestampType'', ''deviceId'', ''ipAddress'']
        then (Inl ValidationFailed, tbl)
      else case body ev ''employeeId'' of
        None \<Rightarrow> (Inl Forbidden, tbl)
      | Some emp \<Rightarrow>
         if getRequestingUser ev \<noteq> Some emp then (Inl Forbidden, tbl)
         else (case validateEmployee w emp of
           Inl e \<Rightarrow> (Inl e, tbl)
         | Inr u \<Rightarrow>
            (case resolveRequestWbs w emp (body ev ''timestampType'') (body ev ''wbsCode'') of
               Inl e \<Rightarrow> (Inl e, tbl)
             | Inr code \<Rightarrow>
                (let latestLog = getLatestTimestamp tbl emp in
                 case chainFields c latestLog (body ev ''timestampType'') now of
                   Inl e \<Rightarrow> (Inl e, tbl)
                 | Inr (seq, prev, h) \<Rightarrow>
                    if body ev ''timestampType'' = Some ''WBS_CHANGE'' \<and> \<not> truthy (body ev ''wbsChangeReason'')
                      then (Inl MissingChangeReason, tbl)
                    else (case putLog tbl (buildItem c ev emp code latestLog now seq prev h) of
                            Inl e \<Rightarrow> (Inl e, tbl)
                          | Inr tbl' \<Rightarrow> (Inr now, tbl'))))))"

text \<open>
  A run of the ledger: invocations one after the other, each with its clock reading and
  its request; a failed one leaves the table as it was.
\<close>

fun appendAll :: "collab \<Rightarrow> world \<Rightarrow> (nat \<times> api_event) list \<Rightarrow> log_table \<Rightarrow> log_table" where
  "appendAll c w [] tbl = tbl"
| "appendAll c w ((now, ev) # rest) tbl = appendAll c w rest (snd (createTimestamp c w now ev tbl))"


section \<open>The auditor: dev-validateTimestamps.js\<close>

text \<open>The entry of one log in the audit: its key fields and its error messages.\<close>

record log_validation =
  lv_timestamp :: string
  lv_sequenceNumber :: "nat option"
  lv_timestampType :: "string option"
  lv_errors :: "string list"

record break_error =
  be_date :: string
  be_error :: string

record error_details =
  ed_sequence :: "log_validation list"
  ed_chronological :: "log_validation list"
  ed_hash :: "log_validation list"
  ed_state :: "log_validation list"
  ed_breaks :: "break_error list"

record audit_state =
  clockedIn :: bool
  onBreak :: bool
  errorDetails :: error_details
  validationResults :: "log_validation list"

text \<open>The sequence, chronological and hash checks of the log at index \<open>i\<close>.\<close>

definition chainErrors :: "collab \<Rightarrow> nat \<Rightarrow> timestamp_log option \<Rightarrow> timestamp_log \<Rightarrow> string list" where
  "chainErrors c i previous current =
     (if sequenceNumber current \<noteq> i + 1 then [''Expected sequence '' @ showNat (i + 1) @ ''.''] else []) @
     (case previous of
        None \<Rightarrow> []
      | Some p \<Rightarrow> if timestamp current \<le> timestamp p then [''Not chronological.''] else []) @
     (case previous of
        Some p \<Rightarrow> if hashChain current \<noteq> generateHash c p then [''Hash mismatch.''] else []
      | None \<Rightarrow> if hashChain current \<noteq> ''GENESIS'' then [''First hash should be GENESIS.''] else [])"

text \<open>The state transition check: the messages, and the flags after the log.\<close>

definition stateErrors :: "bool \<Rightarrow> bool \<Rightarrow> string \<Rightarrow> string list \<times> bool \<times> bool" where
  "stateErrors cin brk ty =
     (if ty = ''CLOCK_IN'' then
        ((if cin then [''Cannot CLOCK_IN while already clocked in.''] else []), True, False)
      else if ty = ''CLOCK_OUT'' then
        ((if \<not> cin then [''Cannot CLOCK_OUT if not clocked in.''] else []) @
         (if brk then [''Cannot CLOCK_OUT while on break.''] else []), False, False)
      else if ty = ''BREAK_START'' then
        ((if \<not> cin \<or> brk then [''Invalid state for BREAK_START.''] else []), cin, True)
      else if ty = ''BREAK_END'' then
        ((if \<not> brk then [''Cannot END_BREAK if not on break.''] else []), cin, False)
      else ([], cin, brk))"

text \<open>An entry with errors is filed under every class one of its messages names.\<close>

definition fileErrors :: "log_validation \<Rightarrow> error_details \<Rightarrow> error_details" where
  "fileErrors lv ed =
     (if lv_errors lv = [] then ed
      else ed \<lparr>
        ed_sequence := ed_sequence ed @
          (if list_ex (\<lambda>e. includesStr e ''sequence'') (lv_errors lv) then [lv] else []),
        ed_chronological := ed_chronological ed @
          (if list_ex (\<lambda>e. includesStr e ''chronological'') (lv_errors lv) then [lv] else []),
        ed_hash := ed_hash ed @
          (if list_ex (\<lambda>e. includesStr e ''Hash'') (lv_errors lv) then [lv] else []),
        ed_state := ed_state ed @
          (if list_ex (\<lambda>e. includesStr e ''Cannot'' \<or> includesStr e ''Invalid state'') (lv_errors lv)
           then [lv] else []) \<rparr>)"

text \<open>One turn of the loop over the logs.\<close>

definition auditStep :: "collab \<Rightarrow> nat \<Rightarrow> timestamp_log option \<Rightarrow> timestamp_log \<Rightarrow> audit_state \<Rightarrow> audit_state" where
  "auditStep c i previous current st =
     (case stateErrors (clockedIn st) (onBreak st) (timestampType current) of
        (serrs, cin, brk) \<Rightarrow>
          (let logValidation =
                 \<lparr> lv_timestamp = toISOString (timestamp current),
                   lv_sequenceNumber = Some (sequenceNumber current),
                   lv_timestampType = Some (timestampType current),
                   lv_errors = chainErrors c i previous current @ serrs \<rparr>
           in \<lparr> clockedIn = cin, onBreak = brk,
                errorDetails = fileErrors logValidation (errorDetails st),
                validationResults = validationResults st @ [logValidation] \<rparr>))"

fun auditLoop :: "collab \<Rightarrow> nat \<Rightarrow> timestamp_log option \<Rightarrow> timestamp_log list \<Rightarrow> audit_state \<Rightarrow> audit_state" where
  "auditLoop c i previous [] st = st"
| "auditLoop c i previous (current # rest) st =
     auditLoop c (i + 1) (Some current) rest (auditStep c i previous current st)"

definition finalStateCheck :: "audit_state \<Rightarrow> error_details" where
  "finalStateCheck st =
     (errorDetails st) \<lparr> ed_state := ed_state (errorDetails st) @
        (if clockedIn st
         then [\<lparr> lv_timestamp = ''final'', lv_sequenceNumber = None, lv_timestampType = None,
                 lv_errors = [''Final State Error: Employee is still clocked in.''] \<rparr>] else []) @
        (if onBreak st
         then [\<lparr> lv_timestamp = ''final'', lv_sequenceNumber = None, lv_timestampType = None,
                 lv_errors = [''Final State Error: Employee is still on break.''] \<rparr>] else []) \<rparr>"

text \<open>
  The break minutes of each date, in the order the dates first occur; a break counts
  for the date of its \<open>BREAK_END\<close>.
\<close>

fun ensureDate :: "string \<Rightarrow> (string \<times> rat) list \<Rightarrow> (string \<times> rat) list" where
  "ensureDate d [] = [(d, 0)]"
| "ensureDate d ((k, v) # kvs) = (if k = d then (k, v) # kvs else (k, v) # ensureDate d kvs)"

fun addMinutes :: "string \<Rightarrow> rat \<Rightarrow> (string \<times> rat) list \<Rightarrow> (string \<times> rat) list" where
  "addMinutes d m [] = []"
| "addMinutes d m ((k, v) # kvs) =
     (if k = d then (k, numAdd v m) # kvs else (k, v) # addMinutes d m kvs)"

fun breakLoop :: "timestamp_log list \<Rightarrow> (string \<times> rat) list \<Rightarrow> nat option \<Rightarrow> (string \<times> rat) list" where
  "breakLoop [] breaksByDate currentBreakStart = breaksByDate"
| "breakLoop (logEntry # rest) breaksByDate currentBreakStart =
     (let byDate = ensureDate (dateOnly (timestamp logEntry)) breaksByDate in
      if timestampType logEntry = ''BREAK_START'' then breakLoop rest byDate (Some (timestamp logEntry))
      else if timestampType logEntry = ''BREAK_END'' \<and> currentBreakStart \<noteq> None then
        breakLoop rest
          (addMinutes (dateOnly (timestamp logEntry))
             (numDiv (of_int (int (timestamp logEntry) - int (the currentBreakStart))) 60000) byDate)
          None
      else breakLoop rest byDate currentBreakStart)"

definition breakErrors :: "timestamp_log list \<Rightarrow> break_error list" where
  "breakErrors logs =
     map (\<lambda>(d, totalMinutes).
            \<lparr> be_date = d,
              be_error = ''Total break duration of '' @ showNat (nat \<lfloor>toFixedDecimal 0 totalMinutes\<rfloor>) @
                         '' minutes exceeds 4-hour limit.'' \<rparr>)
       (filter (\<lambda>(d, totalMinutes). totalMinutes > 240) (breakLoop logs [] None))"

record summary =
  totalLogs :: nat
  sequenceErrors :: nat
  chronologicalErrors :: nat
  hashChainErrors :: nat
  stateErrors_count :: nat
  breakValidationErrors :: nat

record report =
  validationStatus :: string
  reportSummary :: summary
  reportErrorDetails :: error_details
  reportValidationResults :: "log_validation list"

datatype audit_response = NoLogsToValidate | Validated report

text \<open>The state before the first log: clocked out, nothing filed.\<close>

definition auditStart :: audit_state where
  "auditStart = \<lparr> clockedIn = False, onBreak = False,
                  errorDetails = \<lparr> ed_sequence = [], ed_chronological = [], ed_hash = [],
                                   ed_state = [], ed_breaks = [] \<rparr>,
                  validationResults = [] \<rparr>"

text \<open>Steps 3 and 4 of the handler, for a ledger that is not empty.\<close>

definition auditLogs :: "collab \<Rightarrow> timestamp_log list \<Rightarrow> report" where
  "auditLogs c timestampLogs =
     (let st = auditLoop c 0 None timestampLogs auditStart;
          ed = (finalStateCheck st) \<lparr> ed_breaks := breakErrors timestampLogs \<rparr>;
          overallValid = (ed_sequence ed = [] \<and> ed_chronological ed = [] \<and> ed_hash ed = [] \<and>
                          ed_state ed = [] \<and> ed_breaks ed = [])
      in \<lparr> validationStatus = (if overallValid then ''VALID'' else ''INVALID''),
           reportSummary = \<lparr> totalLogs = length timestampLogs,
                              sequenceErrors = length (ed_sequence ed),
                              chronologicalErrors = length (ed_chronological ed),
                              hashChainErrors = length (ed_hash ed),
                              stateErrors_count = length (ed_state ed),
                              breakValidationErrors = length (ed_breaks ed) \<rparr>,
           reportErrorDetails = ed,
           reportValidationResults = validationResults st \<rparr>)"


text \<open>The validation status of a response.\<close>

definition statusOf :: "audit_response \<Rightarrow> string" where
  "statusOf r = (case r of NoLogsToValidate \<Rightarrow> ''VALID'' | Validated rep \<Rightarrow> validationStatus rep)"


section \<open>The latest sequence: dev-getTimestampSequence.js\<close>

record sequence_response =
  latestSequenceNumber :: nat
  latestTimestamp :: "nat option"
  latestTimestampType :: "string option"
  latestHashChain :: "string option"

definition getTimestampSequence :: "world \<Rightarrow> api_event \<Rightarrow> log_table \<Rightarrow> error + sequence_response" where
  "getTimestampSequence w ev tbl =
     (if \<not> isAuthorized ev [''employee'', ''hr_admin'', ''manager_admin''] then Inl Forbidden
      else if \<not> truthy (pathEmployeeId ev) then Inl BadRequest
      else if getUserRole ev = Some ''employee'' \<and> getRequestingUser ev \<noteq> pathEmployeeId ev
        then Inl Forbidden
      else if personalData w (the (pathEmployeeId ev)) = None then Inl EmployeeNotFound
      else Inr (case getLatestTimestamp tbl (the (pathEmployeeId ev)) of
                  None \<Rightarrow> \<lparr> latestSequenceNumber = 0, latestTimestamp = None,
                             latestTimestampType = None, latestHashChain = None \<rparr>
                | Some latestLog \<Rightarrow>
                    \<lparr> latestSequenceNumber = sequenceNumber latestLog,
                      latestTimestamp = Some (timestamp latestLog),
                      latestTimestampType = Some (timestampType latestLog),
                      latestHashChain = Some (hashChain latestLog) \<rparr>))"

section \<open>The timesheet: dev-generateTimesheet.js\<close>

text \<open>
  \<^verbatim>\<open>PK = :pk AND SK BETWEEN :start AND :end\<close>: the items of the partition whose sort
  key, the ISO text of the timestamp, lies between the two request parameters as
  strings.
\<close>

definition fetchAllLogsForRange :: "log_table \<Rightarrow> string \<Rightarrow> string \<Rightarrow> string \<Rightarrow> timestamp_log list" where
  "fetchAllLogsForRange tbl emp startDate endDate =
     filter (\<lambda>e. between (toISOString (timestamp e)) startDate endDate) (tbl emp)"

record segment =
  seg_startTime :: nat
  seg_wbsCode :: "string option"
  seg_endTime :: "nat option"
  seg_totalHours :: rat

text \<open>A day while the logs are walked, and the day of the report.\<close>

record day_acc =
  acc_totalHours :: rat
  acc_allocations :: "segment list"

record day =
  day_totalHours :: rat
  day_allocations :: "segment list"
  dailyRegularHours :: rat
  dailyOvertimeHours :: rat

text \<open>\<^verbatim>\<open>if (!dailyHours[eventDate]) dailyHours[eventDate] = {...}\<close>, keys in the order they are first set.\<close>

fun ensureDay :: "string \<Rightarrow> (string \<times> day_acc) list \<Rightarrow> (string \<times> day_acc) list" where
  "ensureDay d [] = [(d, \<lparr> acc_totalHours = 0, acc_allocations = [] \<rparr>)]"
| "ensureDay d ((k, v) # kvs) = (if k = d then (k, v) # kvs else (k, v) # ensureDay d kvs)"

fun updateDay :: "string \<Rightarrow> (day_acc \<Rightarrow> day_acc) \<Rightarrow> (string \<times> day_acc) list \<Rightarrow> (string \<times> day_acc) list" where
  "updateDay d f [] = []"
| "updateDay d f ((k, v) # kvs) = (if k = d then (k, f v) # kvs else (k, v) # updateDay d f kvs)"

definition closesSegment :: "string \<Rightarrow> bool" where
  "closesSegment ty = (ty = ''WBS_CHANGE'' \<or> ty = ''CLOCK_OUT'' \<or> ty = ''BREAK_START'')"

definition opensSegment :: "string \<Rightarrow> bool" where
  "opensSegment ty = (ty = ''CLOCK_IN'' \<or> ty = ''WBS_CHANGE'' \<or> ty = ''BREAK_END'')"

text \<open>The loop over the sorted logs: the open segment and the open break are carried along.\<close>

fun payrollLoop :: "timestamp_log list \<Rightarrow> (string \<times> day_acc) list \<Rightarrow> segment option \<Rightarrow> nat option \<Rightarrow> (string \<times> day_acc) list" where
  "payrollLoop [] dailyHours currentSegment currentBreak = dailyHours"
| "payrollLoop (logEntry # rest) dailyHours currentSegment currentBreak =
     (let eventTime = timestamp logEntry;
          eventDate = dateOnly eventTime;
          ty = timestampType logEntry;
          d0 = ensureDay eventDate dailyHours;
          closing = (currentSegment \<noteq> None \<and> closesSegment ty);
          d1 = (if closing then
                  updateDay eventDate
                    (\<lambda>dy. dy \<lparr> acc_allocations := acc_allocations dy @
                        [(the currentSegment) \<lparr> seg_endTime := Some eventTime,
                            seg_totalHours := toFixed 3
                              (numDiv (of_int (int eventTime - int (seg_startTime (the currentSegment))))
                                 3600000) \<rparr>] \<rparr>)
                    d0
                else d0);
          s1 = (if closing then None else currentSegment);
          s2 = (if opensSegment ty
                then Some \<lparr> seg_startTime = eventTime, seg_wbsCode = wbsCode logEntry,
                            seg_endTime = None, seg_totalHours = 0 \<rparr>
                else s1)
      in if ty = ''BREAK_START'' then payrollLoop rest d1 s2 (Some eventTime)
         else if ty = ''BREAK_END'' \<and> currentBreak \<noteq> None then
           payrollLoop rest
             (updateDay eventDate
                (\<lambda>dy. dy \<lparr> acc_totalHours := numSub (acc_totalHours dy)
                     (numDiv (of_int (int eventTime - int (the currentBreak))) 3600000) \<rparr>) d1)
             s2 None
         else payrollLoop rest d1 s2 currentBreak)"

text \<open>
  The daily totals: the total of a day is set to the sum of its segments' hours, over
  whatever the loop left there.
\<close>

definition finishDay :: "day_acc \<Rightarrow> day" where
  "finishDay dy =
     (let total = numSum (map seg_totalHours (acc_allocations dy))
      in \<lparr> day_totalHours = total, day_allocations = acc_allocations dy,
           dailyRegularHours = min total 8, dailyOvertimeHours = max 0 (numSub total 8) \<rparr>)"

record weekly_summary =
  ws_totalHours :: rat
  ws_regularHours :: rat
  ws_overtimeHours :: rat

record payroll =
  dailyBreakdown :: "(string \<times> day) list"
  weeklySummary :: weekly_summary

definition weeklyTotals :: "day list \<Rightarrow> weekly_summary" where
  "weeklyTotals days =
     (let totalHours = numSum (map day_totalHours days);
          regularHours = numSum (map dailyRegularHours days);
          weeklyOvertime = max 0 (numSub regularHours 40);
          dailyOvertimeTotal = numSum (map dailyOvertimeHours days)
      in \<lparr> ws_totalHours = toFixed 2 totalHours,
           ws_regularHours = toFixed 2 (numSub regularHours weeklyOvertime),
           ws_overtimeHours = toFixed 2 (numAdd weeklyOvertime dailyOvertimeTotal) \<rparr>)"

definition calculatePayrollDetails :: "timestamp_log list \<Rightarrow> payroll" where
  "calculatePayrollDetails logs =
     (let dailyHours = map (\<lambda>(d, dy). (d, finishDay dy))
                         (payrollLoop (sort_key timestamp logs) [] None None)
      in \<lparr> dailyBreakdown = dailyHours, weeklySummary = weeklyTotals (map snd dailyHours) \<rparr>)"

text \<open>
  A row of the CSV export: date, work-category code, start, end, and the hours as the
  two-place decimal the text shows.
\<close>

definition generateCsv :: "(string \<times> day) list \<Rightarrow> (string \<times> string option \<times> string \<times> string option \<times> rat) list" where
  "generateCsv data =
     concat (map (\<lambda>(d, dayData).
                    map (\<lambda>alloc. (d, seg_wbsCode alloc, toISOString (seg_startTime alloc),
                                   map_option toISOString (seg_endTime alloc),
                                   toFixedDecimal 2 (seg_totalHours alloc)))
                        (day_allocations dayData)) data)"

definition toLowerCase :: "string \<Rightarrow> string" where
  "toLowerCase s =
     map (\<lambda>ch. if (65::nat) \<le> of_char ch \<and> of_char ch \<le> (90::nat)
                then char_of (of_char ch + (32::nat)) else ch) s"

datatype timesheet_response =
    JsonReport payroll
  | CsvExport "(string \<times> string option \<times> string \<times> string option \<times> rat) list"

definition generateTimesheet :: "world \<Rightarrow> api_event \<Rightarrow> log_table \<Rightarrow> error + timesheet_response" where
  "generateTimesheet w ev tbl =
     (let startDate = queryStringParameters ev ''startDate'';
          endDate = queryStringParameters ev ''endDate'';
          fmt = (case queryStringParameters ev ''format'' of None \<Rightarrow> ''json'' | Some f \<Rightarrow> f)
      in if \<not> isAuthorized ev [''hr_admin'', ''manager_admin'', ''employee''] then Inl Forbidden
         else if \<not> truthy (pathEmployeeId ev) \<or> \<not> truthy startDate \<or> \<not> truthy endDate then Inl BadRequest
         else if getUserRole ev = Some ''employee'' \<and> getRequestingUser ev \<noteq> pathEmployeeId ev
           then Inl Forbidden
         else if personalData w (the (pathEmployeeId ev)) = None then Inl EmployeeNotFound
         else (let allLogs = fetchAllLogsForRange tbl (the (pathEmployeeId ev)) (the startDate) (the endDate)
               in if allLogs = [] then Inl NoLogsInRange
                  else if toLowerCase fmt = ''csv''
                    then Inr (CsvExport (generateCsv (dailyBreakdown (calculatePayrollDetails allLogs))))
                  else Inr (JsonReport (calculatePayrollDetails allLogs))))"

section \<open>The attendance record: dev-createAttendanceRecord.js\<close>

record leave_request =
  leave_employeeId :: string
  approvalStatus :: string
  leave_startDate :: string
  leave_endDate :: string

record attendance_details =
  checkInTime :: nat
  checkOutTime :: nat
  att_totalHours :: rat
  att_regularHours :: rat
  att_overtimeHours :: rat
  breaks :: nat
  att_wbsCode :: "string option"
  att_location :: "string option"
  costCenter :: "string option"

text \<open>
  An attendance item of the time-management table. Its key \<open>PK\<close> is
  \<^verbatim>\<open>TIME#ATT#<attendanceId>\<close>; \<open>GSI4PK\<close> and \<open>GSI4SK\<close> are the employee and the
  date.
\<close>

record attendance_item =
  attendanceId :: string
  att_employeeId :: string
  attendanceDate :: string
  details :: attendance_details
  workMode :: "string option"
  projectCode :: "string option"
  taskCategory :: "string option"
  att_notes :: "string option"
  createdBy :: string
  createdAt :: nat

record time_table =
  leaveItems :: "leave_request list"
  attendanceItems :: "attendance_item list"

text \<open>The logs of the date, by the date index; at least two, sorted by time.\<close>

definition getLogsForDate :: "log_table \<Rightarrow> string \<Rightarrow> string \<Rightarrow> error + timestamp_log list" where
  "getLogsForDate tbl emp date =
     (let items = filter (\<lambda>e. dateOnly (timestamp e) = date \<and> employeeId e = emp) (tbl emp)
      in if length items < 2 then Inl IncompleteDay else Inr (sort_key timestamp items))"

definition validateLeaveConflict :: "collab \<Rightarrow> time_table \<Rightarrow> string \<Rightarrow> string \<Rightarrow> error + unit" where
  "validateLeaveConflict c tt emp date =
     (let approvedLeaves = filter (\<lambda>l. leave_employeeId l = emp \<and> approvalStatus l = ''Approved'') (leaveItems tt);
          isConflict = list_ex (\<lambda>leave.
             case (dateParse c date, dateParse c (leave_startDate leave), dateParse c (leave_endDate leave)) of
               (Some attDate, Some leaveStart, Some leaveEnd) \<Rightarrow> attDate \<ge> leaveStart \<and> attDate \<le> leaveEnd
             | _ \<Rightarrow> False) approvedLeaves
      in if isConflict then Inl LeaveConflict else Inr ())"

text \<open>The break loop of the attendance: the total, or the error of a break over 30 minutes.\<close>

fun attendanceBreaks :: "timestamp_log list \<Rightarrow> int \<Rightarrow> nat option \<Rightarrow> error + int" where
  "attendanceBreaks [] totalBreakMs currentBreakStart = Inr totalBreakMs"
| "attendanceBreaks (logEntry # rest) totalBreakMs currentBreakStart =
     (if timestampType logEntry = ''BREAK_START'' then
        attendanceBreaks rest totalBreakMs (Some (timestamp logEntry))
      else if timestampType logEntry = ''BREAK_END'' \<and> currentBreakStart \<noteq> None then
        (let duration = int (timestamp logEntry) - int (the currentBreakStart)
         in if duration > 30 * 60 * 1000 then Inl ExcessiveBreakDuration
            else attendanceBreaks rest (totalBreakMs + duration) None)
      else attendanceBreaks rest totalBreakMs currentBreakStart)"

definition processTimestampLogs :: "world \<Rightarrow> timestamp_log list \<Rightarrow> error + attendance_details" where
  "processTimestampLogs w logs =
     (case (find (\<lambda>l. timestampType l = ''CLOCK_IN'') logs,
            find (\<lambda>l. timestampType l = ''CLOCK_OUT'') logs) of
        (Some clockIn, Some clockOut) \<Rightarrow>
          (let totalDurationMs = int (timestamp clockOut) - int (timestamp clockIn)
           in if totalDurationMs > 12 * 60 * 60 * 1000 then Inl ExcessiveWorkDuration
              else (case attendanceBreaks logs 0 None of
                      Inl e \<Rightarrow> Inl e
                    | Inr totalBreakMs \<Rightarrow>
                        (let totalHours = numDiv (of_int (totalDurationMs - totalBreakMs)) 3600000
                         in Inr \<lparr> checkInTime = timestamp clockIn,
                                  checkOutTime = timestamp clockOut,
                                  att_totalHours = toFixed 2 totalHours,
                                  att_regularHours = toFixed 2 (min totalHours 8),
                                  att_overtimeHours = toFixed 2 (max 0 (numSub totalHours 8)),
                                  breaks = length (filter (\<lambda>l. timestampType l = ''BREAK_START'') logs),
                                  att_wbsCode = wbsCode clockIn,
                                  att_location = location clockIn,
                                  costCenter = (if truthy (wbsCode clockIn)
                                                then (case wbsMetadata w (the (wbsCode clockIn)) of
                                                        None \<Rightarrow> None
                                                      | Some wbsItem \<Rightarrow> wbs_costCenter wbsItem)
                                                else None) \<rparr>)))
      | _ \<Rightarrow> Inl MissingClockBoundary)"

text \<open>
  The pre-check queries \<open>GSI4-AttendanceDateIndex\<close> for the employee and the date.
  The write is a \<^verbatim>\<open>PutItem\<close> under \<^verbatim>\<open>attribute_not_exists(PK)\<close>: it fails
  when an item with the same \<open>PK\<close>, that is the same attendance id, exists.
\<close>

definition existingAttendance :: "time_table \<Rightarrow> string \<Rightarrow> string \<Rightarrow> attendance_item list" where
  "existingAttendance tt emp date =
     filter (\<lambda>a. att_employeeId a = emp \<and> attendanceDate a = date) (attendanceItems tt)"

definition putAttendance :: "time_table \<Rightarrow> attendance_item \<Rightarrow> error + time_table" where
  "putAttendance tt item =
     (if attendanceId item \<in> set (map attendanceId (attendanceItems tt)) then Inl ConditionalCheckFailed
      else Inr (tt \<lparr> attendanceItems := attendanceItems tt @ [item] \<rparr>))"

text \<open>
  The handler. \<open>uuid\<close> is the value \<^verbatim>\<open>uuidv4()\<close> returns in the invocation and
  \<open>now\<close> its clock reading. The result is the response (the error, or the id of the
  record) and the time-management table after the call.
\<close>

definition createAttendanceRecord :: "collab \<Rightarrow> world \<Rightarrow> string \<Rightarrow> nat \<Rightarrow> api_event \<Rightarrow> log_table \<Rightarrow> time_table \<Rightarrow> (error + string) \<times> time_table" where
  "createAttendanceRecord c w uuid now ev tbl tt =
     (if \<not> isAuthorized ev [''employee''] then (Inl Forbidden, tt)
      else if \<not> validateBody c (body ev) [''employeeId'', ''attendanceDate'', ''workMode'']
        then (Inl ValidationFailed, tt)
      else if \<not> truthy (body ev ''employeeId'') \<or> \<not> truthy (body ev ''attendanceDate'')
        then (Inl BadRequest, tt)
      else (let emp = the (body ev ''employeeId''); date = the (body ev ''attendanceDate'') in
        if getRequestingUser ev \<noteq> Some emp then (Inl Forbidden, tt)
        else if existingAttendance tt emp date \<noteq> [] then (Inl Conflict, tt)
        else (case validateLeaveConflict c tt emp date of
           Inl e \<Rightarrow> (Inl e, tt)
         | Inr u \<Rightarrow>
            (case getLogsForDate tbl emp date of
               Inl e \<Rightarrow> (Inl e, tt)
             | Inr logsForDay \<Rightarrow>
                (case processTimestampLogs w logsForDay of
                   Inl e \<Rightarrow> (Inl e, tt)
                 | Inr attendanceDetails \<Rightarrow>
                    (case putAttendance tt
                            \<lparr> attendanceId = uuid, att_employeeId = emp, attendanceDate = date,
                              details = attendanceDetails,
                              workMode = body ev ''workMode'',
                              projectCode = body ev ''projectCode'',
                              taskCategory = body ev ''taskCategory'',
                              att_notes = (if truthy (body ev ''notes'')
                                       then Some (encrypt c (the (body ev ''notes''))) else None),
                              createdBy = emp, createdAt = now \<rparr> of
                       Inl e \<Rightarrow> (Inl e, tt)
                     | Inr tt' \<Rightarrow> (Inr uuid, tt')))))))"


section \<open>The specification's chain and transition table\<close>


text \<open>
  The chain invariant of the data model: the event at index \<open>i\<close> (from 0) carries the
  sequence number \<open>i + 1\<close>, the timestamp of its predecessor, the digest of its
  predecessor (\<open>GENESIS\<close> when there is none), and a later timestamp.
\<close>

definition linked :: "collab \<Rightarrow> nat \<Rightarrow> timestamp_log option \<Rightarrow> timestamp_log \<Rightarrow> bool" where
  "linked c i prev x =
     (sequenceNumber x = i + 1 \<and>
      previousTimestamp x = map_option timestamp prev \<and>
      hashChain x = (case prev of None \<Rightarrow> ''GENESIS'' | Some p \<Rightarrow> generateHash c p) \<and>
      (case prev of None \<Rightarrow> True | Some p \<Rightarrow> timestamp p < timestamp x))"

fun chainFrom :: "collab \<Rightarrow> nat \<Rightarrow> timestamp_log option \<Rightarrow> timestamp_log list \<Rightarrow> bool" where
  "chainFrom c i prev [] = True"
| "chainFrom c i prev (x # xs) = (linked c i prev x \<and> chainFrom c (i + 1) (Some x) xs)"

definition lastOr :: "timestamp_log option \<Rightarrow> timestamp_log list \<Rightarrow> timestamp_log option" where
  "lastOr prev xs = (if xs = [] then prev else Some (last xs))"

definition ledgerInv :: "collab \<Rightarrow> nat \<Rightarrow> timestamp_log list \<Rightarrow> bool" where
  "ledgerInv c t xs = (chainFrom c 0 None xs \<and> list_all (\<lambda>y. timestamp y \<le> t) xs)"


section \<open>Concrete inputs\<close>

text \<open>
  Collaborators for the concrete runs: a stand-in for the digest, a stand-in cipher, a
  body check that wants every required field present and not empty, and no date text
  parsed. No property below depends on these choices but through the runs that name
  them.
\<close>

definition exCollab :: collab where
  "exCollab = \<lparr> sha256 = (\<lambda>s. ''sha256:'' @ s),
                encrypt = (\<lambda>s. ''enc:'' @ s),
                validateBody = (\<lambda>b fields. list_all (\<lambda>f. truthy (b f)) fields),
                dateParse = (\<lambda>s. None) \<rparr>"

definition exWorld :: world where
  "exWorld = \<lparr> personalData = [''E1'' \<mapsto> Some ''ACTIVE''],
               contractDetails = [''E1'' \<mapsto> Some ''D1''],
               wbsMetadata = [''W1'' \<mapsto> \<lparr> wbs_wbsCode = ''W1'', wbs_isActive = True,
                                          wbs_departmentId = Some ''D1'', wbs_costCenter = Some ''CC1'' \<rparr>],
               departmentIndex = (\<lambda>d. if d = ''D1''
                                      then [\<lparr> wbs_wbsCode = ''W1'', wbs_isActive = True,
                                              wbs_departmentId = Some ''D1'', wbs_costCenter = Some ''CC1'' \<rparr>]
                                      else []) \<rparr>"


text \<open>Employee E1 asks to record an event of the given type.\<close>

definition exRequest :: "string \<Rightarrow> api_event" where
  "exRequest ty =
     \<lparr> authorizerClaims = Some \<lparr> custom_empId = Some ''E1'', custom_role = Some ''employee'',
                                 sub_claim = None, cognito_username = None, email = None \<rparr>,
       pathEmployeeId = Some ''E1'',
       queryStringParameters = Map.empty,
       body = [''employeeId'' \<mapsto> ''E1'', ''timestampType'' \<mapsto> ty,
               ''deviceId'' \<mapsto> ''D-1'', ''ipAddress'' \<mapsto> ''10.0.0.1''] \<rparr>"

text \<open>An HR administrator asks about employee E1, with the given query parameters.\<close>

definition exAdmin :: "(string \<rightharpoonup> string) \<Rightarrow> api_event" where
  "exAdmin q =
     \<lparr> authorizerClaims = Some \<lparr> custom_empId = Some ''A1'', custom_role = Some ''hr_admin'',
                                 sub_claim = None, cognito_username = None, email = None \<rparr>,
       pathEmployeeId = Some ''E1'',
       queryStringParameters = q,
       body = Map.empty \<rparr>"

text \<open>Employee E1 asks for the attendance record of a date.\<close>

definition exAttendanceRequest :: "string \<Rightarrow> api_event" where
  "exAttendanceRequest date =
     \<lparr> authorizerClaims = Some \<lparr> custom_empId = Some ''E1'', custom_role = Some ''employee'',
                                 sub_claim = None, cognito_username = None, email = None \<rparr>,
       pathEmployeeId = None,
       queryStringParameters = Map.empty,
       body = [''employeeId'' \<mapsto> ''E1'', ''attendanceDate'' \<mapsto> date, ''workMode'' \<mapsto> ''ONSITE''] \<rparr>"

text \<open>A stored event of employee E1 with the given type, instant, sequence number and hash chain.\<close>

definition exLog :: "string \<Rightarrow> nat \<Rightarrow> nat \<Rightarrow> string \<Rightarrow> timestamp_log" where
  "exLog ty t n h =
     \<lparr> employeeId = ''E1'', timestampType = ty, timestamp = t, previousTimestamp = None,
       sequenceNumber = n, wbsCode = Some ''W1'', location = None, deviceId = Some ''D-1'',
       ipAddress = Some ''10.0.0.1'', hashChain = h, previousWbsCode = None,
       wbsChangeReason = None \<rparr>"

text \<open>
  2025-01-01: in at 08:00, a break from 10:00 to 10:15, out at 16:00 (UTC).
\<close>

definition exBreakDay :: "timestamp_log list" where
  "exBreakDay =
     [exLog ''CLOCK_IN'' 1735718400000 1 ''GENESIS'',
      exLog ''BREAK_START'' 1735725600000 2 ''h1'',
      exLog ''BREAK_END'' 1735726500000 3 ''h2'',
      exLog ''CLOCK_OUT'' 1735747200000 4 ''h3'']"

text \<open>Monday 2025-01-06 to Friday 2025-01-10: in at 08:00 and out at 17:00 each day.\<close>

definition exFiveDays :: "timestamp_log list" where
  "exFiveDays =
     [exLog ''CLOCK_IN'' 1736150400000 1 ''GENESIS'', exLog ''CLOCK_OUT'' 1736182800000 2 ''h1'',
      exLog ''CLOCK_IN'' 1736236800000 3 ''h2'', exLog ''CLOCK_OUT'' 1736269200000 4 ''h3'',
      exLog ''CLOCK_IN'' 1736323200000 5 ''h4'', exLog ''CLOCK_OUT'' 1736355600000 6 ''h5'',
      exLog ''CLOCK_IN'' 1736409600000 7 ''h6'', exLog ''CLOCK_OUT'' 1736442000000 8 ''h7'',
      exLog ''CLOCK_IN'' 1736496000000 9 ''h8'', exLog ''CLOCK_OUT'' 1736528400000 10 ''h9'']"

text \<open>2025-01-01: in at 08:00:00, out at 09:00:18, a shift of 1.005 hours.\<close>

definition exShortShift :: "timestamp_log list" where
  "exShortShift =
     [exLog ''CLOCK_IN'' 1735718400000 1 ''GENESIS'', exLog ''CLOCK_OUT'' 1735722018000 2 ''h1'']"

text \<open>2025-01-02: in at 08:00, out at 12:00, in again at 13:00, out at 17:00.\<close>

definition exTwoShifts :: "timestamp_log list" where
  "exTwoShifts =
     [exLog ''CLOCK_IN'' 1735804800000 1 ''GENESIS'', exLog ''CLOCK_OUT'' 1735819200000 2 ''h1'',
      exLog ''CLOCK_IN'' 1735822800000 3 ''h2'', exLog ''CLOCK_OUT'' 1735837200000 4 ''h3'']"

text \<open>An attendance record of E1 for 2025-01-01 under the given id.\<close>

definition exAttendance :: "string \<Rightarrow> attendance_item" where
  "exAttendance aid =
     \<lparr> attendanceId = aid, att_employeeId = ''E1'', attendanceDate = ''2025-01-01'',
       details = \<lparr> checkInTime = 1735718400000, checkOutTime = 1735747200000,
                   att_totalHours = 31 / 4, att_regularHours = 31 / 4, att_overtimeHours = 0,
                   breaks = 1, att_wbsCode = Some ''W1'', att_location = None,
                   costCenter = Some ''CC1'' \<rparr>,
       workMode = Some ''ONSITE'', projectCode = None, taskCategory = None, att_notes = None,
       createdBy = ''E1'', createdAt = 1735750800000 \<rparr>"

section \<open>Properties of the double arithmetic\<close>

text \<open>
  The exponent brackets the number; a number with at most 53 significant bits is its
  own double, so sums and quotients that are such numbers are exact.
\<close>

lemma ieeeExponent_bounds:
  "0 < x \<Longrightarrow> 2 powi ieeeExponent x \<le> x \<and> x < 2 powi (ieeeExponent x + 1)"
proof (induction x rule: ieeeExponent.induct)
  case (1 x)
  show ?case
  proof (cases "2 \<le> x")
    case True
    then have e: "ieeeExponent x = ieeeExponent (x / 2) + 1"
      using "1.prems" by (subst ieeeExponent.simps) simp
    have ih: "2 powi ieeeExponent (x / 2) \<le> x / 2 \<and> x / 2 < 2 powi (ieeeExponent (x / 2) + 1)"
      using "1.IH"(1) True "1.prems" by simp
    have p: "(2::rat) powi (n + 1) = 2 powi n * 2" for n
      by (simp add: power_int_add)
    from ih show ?thesis unfolding e p by simp
  next
    case False
    show ?thesis
    proof (cases "x < 1")
      case True
      then have e: "ieeeExponent x = ieeeExponent (x * 2) - 1"
        using "1.prems" False by (subst ieeeExponent.simps) simp
      have ih: "2 powi ieeeExponent (x * 2) \<le> x * 2 \<and> x * 2 < 2 powi (ieeeExponent (x * 2) + 1)"
        using "1.IH"(2) True False "1.prems" by simp
      have p: "(2::rat) powi (n + 1) = 2 powi n * 2" for n
        by (simp add: power_int_add)
      have q: "(2::rat) powi n = 2 powi (n - 1) * 2" for n
        using p[of "n - 1"] by simp
      from ih show ?thesis unfolding e
        using q[of "ieeeExponent (x * 2)"] p[of "ieeeExponent (x * 2)"] by simp
    next
      case nl: False
      then have e: "ieeeExponent x = 0"
        using "1.prems" False by (subst ieeeExponent.simps) simp
      show ?thesis unfolding e using False nl by simp
    qed
  qed
qed

lemma roundTiesToEven_of_int: "roundTiesToEven (of_int z) = z"
  by (simp add: roundTiesToEven_def)

lemma toDouble_dyadic:
  assumes "\<bar>m\<bar> < 2 ^ 53"
  shows "toDouble (of_int m * 2 powi j) = of_int m * 2 powi j"
proof (cases "m = 0")
  case True
  then show ?thesis by (simp add: toDouble_def)
next
  case False
  define a :: rat where "a = of_int \<bar>m\<bar> * 2 powi j"
  have apos: "0 < a" using False by (simp add: a_def)
  have abs: "\<bar>of_int m * 2 powi j\<bar> = a" by (simp add: a_def abs_mult)
  define e where "e = ieeeExponent a"
  from ieeeExponent_bounds[OF apos] have lo: "2 powi e \<le> a" by (simp add: e_def)
  have "(of_int \<bar>m\<bar> :: rat) < of_int (2 ^ 53)" using assms by (simp only: of_int_less_iff)
  then have "a < 2 ^ 53 * 2 powi j" by (simp add: a_def)
  also have "\<dots> = 2 powi (53 + j)" by (simp add: power_int_add)
  finally have "(2::rat) powi e < 2 powi (53 + j)" using lo by simp
  then have elt: "e < 53 + j"
    using power_int_increasing[of "53 + j" e "2::rat"] by (cases "e < 53 + j") auto
  define k where "k = nat (j - (e - 52))"
  have kj: "j = (e - 52) + int k" using elt by (simp add: k_def)
  have pj: "(2::rat) powi j = 2 powi (e - 52) * 2 ^ k"
    by (subst kj) (simp add: power_int_add)
  have q: "a / 2 powi (e - 52) = of_int (\<bar>m\<bar> * 2 ^ k)"
    by (simp add: a_def pj)
  have r: "roundTiesToEven (a / 2 powi (e - 52)) = \<bar>m\<bar> * 2 ^ k"
    unfolding q by (rule roundTiesToEven_of_int)
  have nz: "of_int m * (2::rat) powi j \<noteq> 0" using False by simp
  have "toDouble (of_int m * 2 powi j) = sgn (of_int m * 2 powi j) * (of_int (\<bar>m\<bar> * 2 ^ k) * 2 powi (e - 52))"
    using nz by (simp add: toDouble_def Let_def abs e_def[symmetric] r del: of_int_mult of_int_power)
  also have "of_int (\<bar>m\<bar> * 2 ^ k) * 2 powi (e - 52) = a"
    by (simp add: a_def pj)
  also have "sgn (of_int m * 2 powi j) * a = of_int m * 2 powi j"
    unfolding abs[symmetric] by (rule mult_sgn_abs)
  finally show ?thesis .
qed

lemma toDouble_of_int: "\<bar>m\<bar> < 2 ^ 53 \<Longrightarrow> toDouble (of_int m) = of_int m"
  using toDouble_dyadic[of m 0] by simp

lemma toDouble_idem_dyadic:
  "\<bar>m\<bar> < 2 ^ 53 \<Longrightarrow> toDouble (of_int m / 2 ^ k) = of_int m / 2 ^ k"
  using toDouble_dyadic[of m "- int k"] by (simp add: power_int_minus field_simps)

lemma toFixed_exact:
  assumes "x * 10 ^ k = of_int z"
  shows "toFixed k x = toDouble x"
proof -
  have "\<bar>x\<bar> * 10 ^ k = of_int \<bar>z\<bar>"
    using arg_cong[OF assms, of abs] by (simp add: abs_mult)
  then have "\<lfloor>\<bar>x\<bar> * 10 ^ k + 1 / 2\<rfloor> = \<bar>z\<bar>" by (intro floor_unique) simp_all
  moreover have "of_int \<bar>z\<bar> / 10 ^ k = \<bar>x\<bar>"
    using \<open>\<bar>x\<bar> * 10 ^ k = of_int \<bar>z\<bar>\<close> by (simp add: field_simps)
  ultimately have "sgn x * (of_int \<lfloor>\<bar>x\<bar> * 10 ^ k + 1 / 2\<rfloor> / 10 ^ k) = x"
    by (simp only: mult_sgn_abs)
  then show ?thesis by (simp add: toFixed_def toFixedDecimal_def)
qed

lemma floor_rat_numeral_divide:
  "\<lfloor>(numeral a / numeral b :: rat)\<rfloor> = numeral a div numeral b"
  using floor_divide_of_int_eq[of "numeral a" "numeral b", where ?'a = rat] by simp


lemma roundTiesToEven_nonneg: "0 \<le> y \<Longrightarrow> 0 \<le> roundTiesToEven y"
  by (simp add: roundTiesToEven_def Let_def)

lemma toDouble_nonpos:
  assumes "x \<le> 0"
  shows "toDouble x \<le> 0"
proof (cases "x = 0")
  case True
  then show ?thesis by (simp add: toDouble_def)
next
  case False
  define u :: rat where "u = 2 powi (ieeeExponent \<bar>x\<bar> - 52)"
  have u: "0 < u" by (simp add: u_def)
  then have "0 \<le> \<bar>x\<bar> / u" by simp
  then have "0 \<le> roundTiesToEven (\<bar>x\<bar> / u)" by (rule roundTiesToEven_nonneg)
  then have "0 \<le> (of_int (roundTiesToEven (\<bar>x\<bar> / u)) :: rat) * u" using u by simp
  moreover have "toDouble x = - (of_int (roundTiesToEven (\<bar>x\<bar> / u)) * u)"
    using False assms by (simp add: toDouble_def Let_def u_def)
  ultimately show ?thesis by simp
qed

lemma toDouble_zero: "toDouble 0 = 0"
  by (simp add: toDouble_def)

lemma toDouble_one: "toDouble 1 = 1"
  using toDouble_of_int[of 1] by simp

lemma toDouble_neg_numeral:
  "(numeral v :: int) < 2 ^ 53 \<Longrightarrow> toDouble (- numeral v) = - numeral v"
  using toDouble_of_int[of "- numeral v"] by simp

lemma toDouble_numeral: "(numeral v :: int) < 2 ^ 53 \<Longrightarrow> toDouble (numeral v) = numeral v"
  using toDouble_of_int[of "numeral v"] by simp

lemma toDouble_quarters:
  "(numeral v :: int) < 2 ^ 53 \<Longrightarrow> toDouble (numeral v / 4) = numeral v / 4"
  "toDouble (1 / 4) = 1 / 4" "toDouble (- (1 / 4)) = - (1 / 4)"
  using toDouble_idem_dyadic[of "numeral v" 2] toDouble_idem_dyadic[of 1 2]
    toDouble_idem_dyadic[of "- 1" 2] by simp_all

lemma toFixed_zero: "toFixed k 0 = 0"
  by (simp add: toFixed_def toFixedDecimal_def toDouble_zero)

lemma toFixed_numeral: "(numeral v :: int) < 2 ^ 53 \<Longrightarrow> toFixed k (numeral v) = numeral v"
  using toFixed_exact[of "numeral v" k "numeral v * 10 ^ k"] toDouble_numeral[of v] by simp

lemma toFixed_quarters_of_int:
  assumes "toDouble (of_int m / 4) = of_int m / 4"
  shows "toFixed 2 (of_int m / 4) = of_int m / 4" "toFixed 3 (of_int m / 4) = of_int m / 4"
proof -
  have "(of_int m / 4 :: rat) * 10 ^ 2 = of_int (m * 25)" by simp
  from toFixed_exact[OF this] show "toFixed 2 (of_int m / 4) = of_int m / 4" by (simp only: assms)
  have "(of_int m / 4 :: rat) * 10 ^ 3 = of_int (m * 250)" by simp
  from toFixed_exact[OF this] show "toFixed 3 (of_int m / 4) = of_int m / 4" by (simp only: assms)
qed

lemma toFixed_quarters:
  "(numeral v :: int) < 2 ^ 53 \<Longrightarrow> toFixed 2 (numeral v / 4) = numeral v / 4"
  "(numeral v :: int) < 2 ^ 53 \<Longrightarrow> toFixed 3 (numeral v / 4) = numeral v / 4"
  using toFixed_quarters_of_int[of "numeral v"] toDouble_quarters(1)[of v] by simp_all

text \<open>Rewriting sets for the concrete runs: exact values, and plain evaluation.\<close>

lemmas num_defs = numAdd_def numSub_def numDiv_def numSum_def
lemmas exact_doubles = toDouble_zero toDouble_one toDouble_numeral toDouble_neg_numeral toDouble_quarters
  toFixed_zero toFixed_numeral toFixed_quarters
lemmas double_eval = toFixed_def toFixedDecimal_def toDouble_def ieeeExponent.simps
  roundTiesToEven_def floor_rat_numeral_divide

text \<open>
  The double of 1.005 lies below 1.005: written to two places it is 1.00, and a sum of
  0.1 and 0.2 is not 0.3.
\<close>

lemma toDouble_1005: "toDouble (201 / 200) = 1131529406376837 / 1125899906842624"
  by (simp add: double_eval Let_def cong: let_weak_cong)

lemma toFixed_1005: "toFixed 2 (toDouble (201 / 200)) = 1"
  unfolding toDouble_1005 by (simp add: double_eval Let_def cong: let_weak_cong)

lemma numAdd_tenths:
  "numAdd (toDouble (1 / 10)) (toDouble (2 / 10)) = 1351079888211149 / 4503599627370496"
  by (simp add: numAdd_def double_eval Let_def cong: let_weak_cong)


section \<open>Properties of the ledger\<close>

text \<open>
  The chain invariant over a list grown at its end, and read at an index.
\<close>

lemma chainFrom_snoc:
  "chainFrom c i prev (xs @ [x]) =
     (chainFrom c i prev xs \<and> linked c (i + length xs) (lastOr prev xs) x)"
  by (induction xs arbitrary: i prev) (auto simp: lastOr_def)

lemma chainFrom_nth:
  "chainFrom c i prev xs \<Longrightarrow> n < length xs \<Longrightarrow>
     linked c (i + n) (if n = 0 then prev else Some (xs ! (n - 1))) (xs ! n)"
proof (induction xs arbitrary: i prev n)
  case Nil
  then show ?case by simp
next
  case (Cons x xs)
  show ?case
  proof (cases n)
    case 0
    with Cons.prems show ?thesis by simp
  next
    case (Suc m)
    with Cons.prems have "linked c (i + 1 + m) (if m = 0 then Some x else Some (xs ! (m - 1))) (xs ! m)"
      using Cons.IH[of "i + 1" "Some x" m] by simp
    with Suc show ?thesis by (cases m) auto
  qed
qed


text \<open>
  An accepted append writes one item, built from the latest event; a rejected one
  leaves the table as it was. Under a clock that does not run backwards the item goes
  to the end of the employee's partition and extends the chain.
\<close>

lemma insort_key_at_end:
  "\<forall>y \<in> set xs. f y < f x \<Longrightarrow> insort_key f x xs = xs @ [x]"
  by (induction xs) auto

lemma getLatest_lastOr: "getLatestTimestamp tbl emp = lastOr None (tbl emp)"
  by (auto simp: getLatestTimestamp_def lastOr_def split: list.splits)

lemma putLog_other:
  "putLog tbl item = Inr tbl' \<Longrightarrow> employeeId item \<noteq> emp \<Longrightarrow> tbl' emp = tbl emp"
  by (auto simp: putLog_def split: if_splits)

lemma buildItem_fields:
  "employeeId (buildItem c ev emp code latestLog now seq prev h) = emp"
  "timestamp (buildItem c ev emp code latestLog now seq prev h) = now"
  "sequenceNumber (buildItem c ev emp code latestLog now seq prev h) = seq"
  "previousTimestamp (buildItem c ev emp code latestLog now seq prev h) = prev"
  "hashChain (buildItem c ev emp code latestLog now seq prev h) = h"
  "timestampType (buildItem c ev emp code latestLog now seq prev h) = the (body ev ''timestampType'')"
  by (simp_all add: buildItem_def)

lemma createTimestamp_accepted:
  assumes "createTimestamp c w now ev tbl = (Inr t, tbl')"
  shows "\<exists>emp code seq prev h. body ev ''employeeId'' = Some emp \<and> t = now \<and>
           chainFields c (getLatestTimestamp tbl emp) (body ev ''timestampType'') now = Inr (seq, prev, h) \<and>
           now \<notin> set (map timestamp (tbl emp)) \<and>
           tbl' = tbl (emp := insort_key timestamp
                     (buildItem c ev emp code (getLatestTimestamp tbl emp) now seq prev h) (tbl emp))"
  using assms
  by (auto simp: createTimestamp_def Let_def putLog_def buildItem_fields
      split: if_splits option.splits sum.splits prod.splits)

lemma createTimestamp_rejected:
  "fst (createTimestamp c w now ev tbl) = Inl e \<Longrightarrow> snd (createTimestamp c w now ev tbl) = tbl"
  by (auto simp: createTimestamp_def Let_def split: if_splits option.splits sum.splits prod.splits)

lemma chainFields_linked:
  assumes "chainFields c (lastOr None xs) ty now = Inr (seq, prev, h)"
    and "sequenceNumber item = seq" "previousTimestamp item = prev" "hashChain item = h"
    and "timestamp item = now"
    and "chainFrom c 0 None xs"
    and "\<forall>y \<in> set xs. timestamp y < now"
  shows "linked c (length xs) (lastOr None xs) item"
proof (cases "xs = []")
  case True
  with assms show ?thesis
    by (auto simp: chainFields_def lastOr_def linked_def split: if_splits)
next
  case False
  then obtain ys l where xs: "xs = ys @ [l]" by (metis append_butlast_last_id)
  from assms(6) have "sequenceNumber l = length ys + 1"
    unfolding xs chainFrom_snoc by (simp add: linked_def)
  with assms xs show ?thesis
    by (auto simp: chainFields_def lastOr_def linked_def split: if_splits option.splits)
qed

lemma createTimestamp_inv:
  assumes inv: "ledgerInv c t (tbl emp)" and le: "t \<le> now"
  shows "ledgerInv c now (snd (createTimestamp c w now ev tbl) emp)"
proof (cases "fst (createTimestamp c w now ev tbl)")
  case (Inl e)
  then have "snd (createTimestamp c w now ev tbl) = tbl" by (rule createTimestamp_rejected)
  with inv le show ?thesis by (auto simp: ledgerInv_def list_all_iff)
next
  case (Inr r)
  then have eq: "createTimestamp c w now ev tbl = (Inr r, snd (createTimestamp c w now ev tbl))"
    by (metis prod.collapse)
  from createTimestamp_accepted[OF eq] obtain emp' code seq prev h where
    a0: "chainFields c (getLatestTimestamp tbl emp') (body ev ''timestampType'') now = Inr (seq, prev, h)"
      "now \<notin> set (map timestamp (tbl emp'))"
      "snd (createTimestamp c w now ev tbl) = tbl (emp' := insort_key timestamp
          (buildItem c ev emp' code (getLatestTimestamp tbl emp') now seq prev h) (tbl emp'))"
    by blast
  define item where "item = buildItem c ev emp' code (getLatestTimestamp tbl emp') now seq prev h"
  have a: "chainFields c (getLatestTimestamp tbl emp') (body ev ''timestampType'') now = Inr (seq, prev, h)"
      "employeeId item = emp'" "timestamp item = now" "sequenceNumber item = seq"
      "previousTimestamp item = prev" "hashChain item = h"
      "now \<notin> set (map timestamp (tbl emp'))"
      "snd (createTimestamp c w now ev tbl) = tbl (emp' := insort_key timestamp item (tbl emp'))"
    using a0 by (simp_all add: item_def buildItem_fields)
  show ?thesis
  proof (cases "emp' = emp")
    case False
    with a(8) inv le show ?thesis by (auto simp: ledgerInv_def list_all_iff)
  next
    case True
    have lt: "\<forall>y \<in> set (tbl emp). timestamp y < now"
    proof
      fix y assume y: "y \<in> set (tbl emp)"
      with inv le have "timestamp y \<le> now" by (auto simp: ledgerInv_def list_all_iff)
      moreover from y a(7) True have "timestamp y \<noteq> now" by auto
      ultimately show "timestamp y < now" by simp
    qed
    then have ins: "insort_key timestamp item (tbl emp) = tbl emp @ [item]"
      using a(3) by (simp add: insort_key_at_end)
    have "linked c (length (tbl emp)) (lastOr None (tbl emp)) item"
      using chainFields_linked[OF _ a(4) a(5) a(6) a(3) _ lt] a(1) inv True
      by (simp add: getLatest_lastOr ledgerInv_def)
    with inv lt a(3) a(8) True ins show ?thesis
      by (auto simp: ledgerInv_def list_all_iff chainFrom_snoc)
  qed
qed

lemma appendAll_inv:
  "ledgerInv c t (tbl emp) \<Longrightarrow> sorted (t # map fst attempts) \<Longrightarrow>
   \<exists>t'. ledgerInv c t' (appendAll c w attempts tbl emp)"
proof (induction attempts arbitrary: t tbl)
  case Nil
  then show ?case by auto
next
  case (Cons a attempts)
  obtain now ev where a: "a = (now, ev)" by (cases a)
  from Cons.prems have "t \<le> now" "sorted (now # map fst attempts)" by (auto simp: a)
  with Cons.prems(1) createTimestamp_inv[of c t tbl emp now w ev] Cons.IH[of now "snd (createTimestamp c w now ev tbl)"]
  show ?case by (auto simp: a)
qed



text \<open>
  The auditor on a chained ledger: the chain checks give no message, and no message of
  the state check is filed under the sequence, chronological or hash class.
\<close>

lemma startsWith_set: "startsWith s pat \<Longrightarrow> set pat \<subseteq> set s"
  by (induction s pat rule: startsWith.induct) auto

lemma includesStr_set: "includesStr s pat \<Longrightarrow> set pat \<subseteq> set s"
proof (induction s)
  case Nil
  then show ?case by simp
next
  case (Cons a s)
  then show ?case using startsWith_set[of "a # s" pat] by auto
qed

lemma digitChar_digit: "digitChar d \<in> set ''0123456789''"
proof -
  have "d mod 10 < length ''0123456789''" by simp
  then show ?thesis unfolding digitChar_def by (rule nth_mem)
qed

lemma set_showNat: "set (showNat n) \<subseteq> set ''0123456789''"
proof (induction n rule: showNat.induct)
  case (1 n)
  show ?case
  proof (cases "n < 10")
    case True
    then show ?thesis using digitChar_digit[of n] by (subst showNat.simps) simp
  next
    case False
    with 1 show ?thesis using digitChar_digit[of n] by (subst showNat.simps) simp
  qed
qed







text \<open>Unfolding sets for the concrete runs.\<close>

lemmas ex_defs = exCollab_def exWorld_def exRequest_def exAdmin_def exLog_def
lemmas handler_defs = createTimestamp_def isAuthorized_def getUserRole_def getRequestingUser_def
  truthy_def orElse_def validateEmployee_def resolveRequestWbs_def resolveWbsCode_def
  validateWbsCodeForEmployee_def getLatestTimestamp_def chainFields_def validTransitions_def
  putLog_def buildItem_def
lemmas iso_defs = toISOString_def civilFromDays_def pad2_def pad3_def pad4_def digitChar_def


lemma chainFields_Inr:
  "chainFields c latest ty now = Inr (seq, prev, h) \<Longrightarrow>
     seq = (case latest of None \<Rightarrow> 1 | Some l \<Rightarrow> sequenceNumber l + 1) \<and>
     prev = map_option timestamp latest \<and>
     h = (case latest of None \<Rightarrow> ''GENESIS'' | Some l \<Rightarrow> generateHash c l)"
  by (auto simp: chainFields_def split: option.splits if_splits)

lemma appendAll_chained:
  assumes "tbl emp = []" and "sorted (map fst attempts)"
  shows "chainFrom c 0 None (appendAll c w attempts tbl emp)"
proof -
  have "ledgerInv c 0 (tbl emp)" using assms(1) by (simp add: ledgerInv_def)
  moreover have "sorted (0 # map fst attempts)" using assms(2) by simp
  ultimately obtain t' where "ledgerInv c t' (appendAll c w attempts tbl emp)"
    using appendAll_inv by blast
  then show ?thesis by (simp add: ledgerInv_def)
qed





text \<open>The digest of an event, written out: an absent work-category code adds nothing.\<close>

lemma generateHash_digest:
  "generateHash c l =
     sha256 c (toISOString (timestamp l) @ timestampType l @ showNat (sequenceNumber l) @
               (case wbsCode l of None \<Rightarrow> [] | Some wc \<Rightarrow> wc))"
  by (cases "wbsCode l") (auto simp: generateHash_def orElse_def truthy_def)

text \<open>
  Claim C4, amended. Every accepted append writes one event whose sequence number is
  the latest event's plus one (1 when there is none), whose previous timestamp is the
  latest event's timestamp (absent for the first) and whose hash chain is the SHA-256
  digest of the latest event's ISO timestamp, type, sequence number and work-category
  code, in this order (\<open>GENESIS\<close> for the first). So after any run of attempts, failed
  ones included, made one after the other on an empty ledger under clock readings that
  do not decrease, the event at position \<open>n + 1\<close> of the employee's ledger has
  sequence number \<open>n + 1\<close> and carries the timestamp and the digest of the event
  before it.
\<close>

theorem accepted_append_chain_fields:
  "(\<forall>now ev tbl t tbl'. createTimestamp c w now ev tbl = (Inr t, tbl') \<longrightarrow>
      (\<exists>emp item. body ev ''employeeId'' = Some emp \<and> employeeId item = emp \<and> timestamp item = now \<and>
         tbl' = tbl (emp := insort_key timestamp item (tbl emp)) \<and>
         sequenceNumber item = (case getLatestTimestamp tbl emp of None \<Rightarrow> 1 | Some l \<Rightarrow> sequenceNumber l + 1) \<and>
         previousTimestamp item = map_option timestamp (getLatestTimestamp tbl emp) \<and>
         hashChain item =
           (case getLatestTimestamp tbl emp of
              None \<Rightarrow> ''GENESIS''
            | Some l \<Rightarrow> sha256 c (toISOString (timestamp l) @ timestampType l @
                                  showNat (sequenceNumber l) @
                                  (case wbsCode l of None \<Rightarrow> [] | Some wc \<Rightarrow> wc))))) \<and>
   (\<forall>attempts tbl emp n. tbl emp = [] \<and> sorted (map fst attempts) \<and>
        n < length (appendAll c w attempts tbl emp) \<longrightarrow>
      sequenceNumber (appendAll c w attempts tbl emp ! n) = n + 1 \<and>
      previousTimestamp (appendAll c w attempts tbl emp ! n) =
        (if n = 0 then None else Some (timestamp (appendAll c w attempts tbl emp ! (n - 1)))) \<and>
      hashChain (appendAll c w attempts tbl emp ! n) =
        (if n = 0 then ''GENESIS''
         else sha256 c (toISOString (timestamp (appendAll c w attempts tbl emp ! (n - 1))) @
                        timestampType (appendAll c w attempts tbl emp ! (n - 1)) @
                        showNat (sequenceNumber (appendAll c w attempts tbl emp ! (n - 1))) @
                        (case wbsCode (appendAll c w attempts tbl emp ! (n - 1)) of
                           None \<Rightarrow> [] | Some wc \<Rightarrow> wc))))"
proof (intro conjI allI impI)
  fix now ev tbl t tbl'
  assume a: "createTimestamp c w now ev tbl = (Inr t, tbl')"
  from createTimestamp_accepted[OF a] obtain emp code seq prev h where
    b: "body ev ''employeeId'' = Some emp"
       "chainFields c (getLatestTimestamp tbl emp) (body ev ''timestampType'') now = Inr (seq, prev, h)"
       "tbl' = tbl (emp := insort_key timestamp
                     (buildItem c ev emp code (getLatestTimestamp tbl emp) now seq prev h) (tbl emp))"
    by blast
  from chainFields_Inr[OF b(2)] b(1) b(3)
  show "\<exists>emp item. body ev ''employeeId'' = Some emp \<and> employeeId item = emp \<and> timestamp item = now \<and>
         tbl' = tbl (emp := insort_key timestamp item (tbl emp)) \<and>
         sequenceNumber item = (case getLatestTimestamp tbl emp of None \<Rightarrow> 1 | Some l \<Rightarrow> sequenceNumber l + 1) \<and>
         previousTimestamp item = map_option timestamp (getLatestTimestamp tbl emp) \<and>
         hashChain item =
           (case getLatestTimestamp tbl emp of
              None \<Rightarrow> ''GENESIS''
            | Some l \<Rightarrow> sha256 c (toISOString (timestamp l) @ timestampType l @
                                  showNat (sequenceNumber l) @
                                  (case wbsCode l of None \<Rightarrow> [] | Some wc \<Rightarrow> wc)))"
    by (intro exI[of _ emp] exI[of _ "buildItem c ev emp code (getLatestTimestamp tbl emp) now seq prev h"])
       (simp add: buildItem_fields generateHash_digest split: option.splits)
next
  fix attempts :: "(nat \<times> api_event) list" and tbl :: log_table and emp n
  assume a: "tbl emp = [] \<and> sorted (map fst attempts) \<and> n < length (appendAll c w attempts tbl emp)"
  then have "chainFrom c 0 None (appendAll c w attempts tbl emp)" by (simp add: appendAll_chained)
  from chainFrom_nth[OF this, of n] a
  have l: "linked c n (if n = 0 then None else Some (appendAll c w attempts tbl emp ! (n - 1)))
             (appendAll c w attempts tbl emp ! n)" by simp
  then show "sequenceNumber (appendAll c w attempts tbl emp ! n) = n + 1"
    by (simp add: linked_def)
  from l show "previousTimestamp (appendAll c w attempts tbl emp ! n) =
        (if n = 0 then None else Some (timestamp (appendAll c w attempts tbl emp ! (n - 1))))"
    by (simp add: linked_def split: if_splits)
  from l show "hashChain (appendAll c w attempts tbl emp ! n) =
        (if n = 0 then ''GENESIS''
         else sha256 c (toISOString (timestamp (appendAll c w attempts tbl emp ! (n - 1))) @
                        timestampType (appendAll c w attempts tbl emp ! (n - 1)) @
                        showNat (sequenceNumber (appendAll c w attempts tbl emp ! (n - 1))) @
                        (case wbsCode (appendAll c w attempts tbl emp ! (n - 1)) of
                           None \<Rightarrow> [] | Some wc \<Rightarrow> wc)))"
    by (simp add: linked_def generateHash_digest split: if_splits)
qed

text \<open>
  A run of C4: a \<open>CLOCK_IN\<close>, a \<open>BREAK_END\<close> that is refused, a \<open>BREAK_START\<close>.
\<close>

lemma ex_run_events:
  "map (\<lambda>e. (timestamp e, timestampType e, sequenceNumber e, wbsCode e))
     (appendAll exCollab exWorld
       [(1735718400000, exRequest ''CLOCK_IN''),
        (1735720000000, exRequest ''BREAK_END''),
        (1735725600000, exRequest ''BREAK_START'')] (\<lambda>e. []) ''E1'') =
   [(1735718400000, ''CLOCK_IN'', 1, Some ''W1''), (1735725600000, ''BREAK_START'', 2, Some ''W1'')]"
  by (simp add: ex_defs handler_defs Let_def cong: let_weak_cong)

lemma toISOString_jan1_in: "toISOString 1735718400000 = ''2025-01-01T08:00:00.000Z''"
  by (simp add: iso_defs Let_def cong: let_weak_cong)

theorem accepted_append_chain_fields_witness:
  "length (appendAll exCollab exWorld
     [(1735718400000, exRequest ''CLOCK_IN''),
      (1735720000000, exRequest ''BREAK_END''),
      (1735725600000, exRequest ''BREAK_START'')] (\<lambda>e. []) ''E1'') = 2 \<and>
   sequenceNumber (appendAll exCollab exWorld
     [(1735718400000, exRequest ''CLOCK_IN''),
      (1735720000000, exRequest ''BREAK_END''),
      (1735725600000, exRequest ''BREAK_START'')] (\<lambda>e. []) ''E1'' ! 1) = 2 \<and>
   hashChain (appendAll exCollab exWorld
     [(1735718400000, exRequest ''CLOCK_IN''),
      (1735720000000, exRequest ''BREAK_END''),
      (1735725600000, exRequest ''BREAK_START'')] (\<lambda>e. []) ''E1'' ! 0) = ''GENESIS'' \<and>
   hashChain (appendAll exCollab exWorld
     [(1735718400000, exRequest ''CLOCK_IN''),
      (1735720000000, exRequest ''BREAK_END''),
      (1735725600000, exRequest ''BREAK_START'')] (\<lambda>e. []) ''E1'' ! 1) =
     ''sha256:2025-01-01T08:00:00.000ZCLOCK_IN1W1''"
proof -
  define as :: "(nat \<times> api_event) list" where
    "as = [(1735718400000, exRequest ''CLOCK_IN''),
      (1735720000000, exRequest ''BREAK_END''),
      (1735725600000, exRequest ''BREAK_START'')]"
  define L where "L = appendAll exCollab exWorld as (\<lambda>e. []) ''E1''"
  have events: "map (\<lambda>e. (timestamp e, timestampType e, sequenceNumber e, wbsCode e)) L =
      [(1735718400000, ''CLOCK_IN'', 1, Some ''W1''), (1735725600000, ''BREAK_START'', 2, Some ''W1'')]"
    unfolding L_def as_def by (rule ex_run_events)
  have len: "length L = 2" using arg_cong[OF events, of length] by simp
  then obtain x y where xy: "L = [x, y]"
    by (cases L; cases "tl L"; cases "tl (tl L)") auto
  have x: "timestamp x = 1735718400000" "timestampType x = ''CLOCK_IN''"
    "sequenceNumber x = 1" "wbsCode x = Some ''W1''"
    using events unfolding xy by simp_all
  have srt: "sorted (map fst as)" by (simp add: as_def)
  note R = accepted_append_chain_fields[of exCollab exWorld, THEN conjunct2, rule_format]
  have p1: "(\<lambda>e. []) ''E1'' = [] \<and> sorted (map fst as) \<and>
            1 < length (appendAll exCollab exWorld as (\<lambda>e. []) ''E1'')"
    using srt len by (simp add: L_def)
  have p0: "(\<lambda>e. []) ''E1'' = [] \<and> sorted (map fst as) \<and>
            0 < length (appendAll exCollab exWorld as (\<lambda>e. []) ''E1'')"
    using srt len by (simp add: L_def)
  from R[OF p1] have s1: "sequenceNumber (L ! 1) = 2" by (simp add: L_def)
  from R[OF p0] have h0: "hashChain (L ! 0) = ''GENESIS''" by (simp add: L_def)
  from R[OF p1] have "hashChain (L ! 1) =
      sha256 exCollab (toISOString (timestamp (L ! 0)) @ timestampType (L ! 0) @
         showNat (sequenceNumber (L ! 0)) @ (case wbsCode (L ! 0) of None \<Rightarrow> [] | Some wc \<Rightarrow> wc))"
    by (simp add: L_def)
  then have h1: "hashChain (L ! 1) = ''sha256:2025-01-01T08:00:00.000ZCLOCK_IN1W1''"
    unfolding xy by (simp add: x toISOString_jan1_in exCollab_def digitChar_def)
  from len s1 h0 h1 show ?thesis unfolding L_def as_def by blast
qed

text \<open>
  The run that refutes claim C4 as stated: three appends, all accepted, under clock
  readings that go back (08:00, then 07:00 and 07:30 of the same day). The latest event
  by timestamp stays the \<open>CLOCK_IN\<close> of 08:00, so the second and the third accepted
  event both get sequence number 2, and the third is not numbered 3.
\<close>

theorem backward_clock_sequence_counterexample:
  "fst (createTimestamp exCollab exWorld 1735718400000 (exRequest ''CLOCK_IN'') (\<lambda>e. []))
     = Inr 1735718400000 \<and>
   fst (createTimestamp exCollab exWorld 1735714800000 (exRequest ''BREAK_START'')
          (appendAll exCollab exWorld [(1735718400000, exRequest ''CLOCK_IN'')] (\<lambda>e. [])))
     = Inr 1735714800000 \<and>
   fst (createTimestamp exCollab exWorld 1735716600000 (exRequest ''CLOCK_OUT'')
          (appendAll exCollab exWorld
             [(1735718400000, exRequest ''CLOCK_IN''),
              (1735714800000, exRequest ''BREAK_START'')] (\<lambda>e. [])))
     = Inr 1735716600000 \<and>
   map (\<lambda>e. (timestamp e, timestampType e, sequenceNumber e))
     (appendAll exCollab exWorld
        [(1735718400000, exRequest ''CLOCK_IN''),
         (1735714800000, exRequest ''BREAK_START''),
         (1735716600000, exRequest ''CLOCK_OUT'')] (\<lambda>e. []) ''E1'') =
   [(1735714800000, ''BREAK_START'', 2), (1735716600000, ''CLOCK_OUT'', 2),
    (1735718400000, ''CLOCK_IN'', 1)]"
  by (simp add: ex_defs handler_defs Let_def cong: let_weak_cong)

section \<open>Properties of the auditor\<close>




lemma dateOnly_jan1_in: "dateOnly 1735718400000 = ''2025-01-01''"
  by (simp add: dateOnly_def splitT0_def iso_defs Let_def cong: let_weak_cong)

lemma dateOnly_jan1_out: "dateOnly 1735747200000 = ''2025-01-01''"
  by (simp add: dateOnly_def splitT0_def iso_defs Let_def cong: let_weak_cong)








text \<open>The audit of a \<open>CLOCK_IN\<close> and a \<open>CLOCK_OUT\<close> whose first hash chain was altered.\<close>

lemma breakErrors_one_shift: "breakErrors [exLog ''CLOCK_IN'' 1735718400000 1 h1, exLog ''CLOCK_OUT'' 1735747200000 2 h2] = []"
  by (simp add: breakErrors_def exLog_def dateOnly_jan1_in dateOnly_jan1_out Let_def cong: let_weak_cong)

lemma auditLoop_tampered_first: "auditLoop c 0 None
      [exLog ''CLOCK_IN'' 1735718400000 1 ''TAMPERED'',
       exLog ''CLOCK_OUT'' 1735747200000 2 (generateHash c (exLog ''CLOCK_IN'' 1735718400000 1 ''TAMPERED''))]
      auditStart =
               \<lparr> clockedIn = False, onBreak = False,
                   errorDetails = \<lparr> ed_sequence = [], ed_chronological = [], ed_hash = [],
                                    ed_state = [], ed_breaks = [] \<rparr>,
                   validationResults = [\<lparr> lv_timestamp = toISOString 1735718400000,
                   lv_sequenceNumber = Some 1,
                   lv_timestampType = Some ''CLOCK_IN'',
                   lv_errors = [''First hash should be GENESIS.''] \<rparr>,
                   \<lparr> lv_timestamp = toISOString 1735747200000,
                   lv_sequenceNumber = Some 2,
                   lv_timestampType = Some ''CLOCK_OUT'',
                   lv_errors = [] \<rparr>] \<rparr>"
proof -
  have f: "timestampType (exLog ty t n h) = ty" "timestamp (exLog ty t n h) = t"
    "sequenceNumber (exLog ty t n h) = n" "hashChain (exLog ty t n h) = h" for ty t n h
    by (simp_all add: exLog_def)
  show ?thesis
    by (simp add: auditStart_def auditStep_def chainErrors_def stateErrors_def fileErrors_def f Let_def cong: let_weak_cong)
qed

lemma hash_messages:
  "includesStr ''Hash mismatch.'' ''Hash'' \<and> \<not> includesStr ''First hash should be GENESIS.'' ''Hash''"
  by simp

text \<open>
  Claim C5, at the failing input: a ledger of a \<open>CLOCK_IN\<close> and a \<open>CLOCK_OUT\<close>
  that is in order but for the hash chain of the first event, which is not
  \<open>GENESIS\<close>. The entry of the first event carries the message of the first-hash
  check, the hash class stays empty and the status is \<open>VALID\<close>: the class is
  filled by the messages that contain \<open>Hash\<close>, and this one has \<open>hash\<close>.
\<close>

theorem tampered_first_hash_not_counted:
  "validationStatus (auditLogs c
      [exLog ''CLOCK_IN'' 1735718400000 1 ''TAMPERED'',
       exLog ''CLOCK_OUT'' 1735747200000 2 (generateHash c (exLog ''CLOCK_IN'' 1735718400000 1 ''TAMPERED''))]) = ''VALID'' \<and>
   hashChainErrors (reportSummary (auditLogs c
      [exLog ''CLOCK_IN'' 1735718400000 1 ''TAMPERED'',
       exLog ''CLOCK_OUT'' 1735747200000 2 (generateHash c (exLog ''CLOCK_IN'' 1735718400000 1 ''TAMPERED''))])) = 0 \<and>
   map lv_errors (reportValidationResults (auditLogs c
      [exLog ''CLOCK_IN'' 1735718400000 1 ''TAMPERED'',
       exLog ''CLOCK_OUT'' 1735747200000 2 (generateHash c (exLog ''CLOCK_IN'' 1735718400000 1 ''TAMPERED''))]))
     = [[''First hash should be GENESIS.''], []]"
  unfolding auditLogs_def Let_def auditStart_def[symmetric] auditLoop_tampered_first breakErrors_one_shift finalStateCheck_def
  by simp


section \<open>Properties of the latest sequence\<close>

text \<open>
  Claim C10. For an employee whose ledger is empty, a request that is authorized (a
  permitted role; an employee asks for the own sequence) and names an employee on
  record succeeds, with sequence number 0 and no timestamp, type or hash chain.
\<close>

theorem empty_ledger_sequence:
  assumes "isAuthorized ev [''employee'', ''hr_admin'', ''manager_admin'']"
    and "pathEmployeeId ev = Some emp" and "emp \<noteq> []"
    and "getUserRole ev = Some ''employee'' \<longrightarrow> getRequestingUser ev = Some emp"
    and "personalData w emp \<noteq> None"
    and "tbl emp = []"
  shows "getTimestampSequence w ev tbl =
           Inr \<lparr> latestSequenceNumber = 0, latestTimestamp = None,
                 latestTimestampType = None, latestHashChain = None \<rparr>"
  using assms by (auto simp: getTimestampSequence_def getLatestTimestamp_def truthy_def)

theorem empty_ledger_sequence_witness:
  "getTimestampSequence exWorld (exRequest ''CLOCK_IN'') (\<lambda>e. []) =
           Inr \<lparr> latestSequenceNumber = 0, latestTimestamp = None,
                 latestTimestampType = None, latestHashChain = None \<rparr>"
proof -
  have a: "isAuthorized (exRequest ''CLOCK_IN'') [''employee'', ''hr_admin'', ''manager_admin'']"
    by (simp add: exRequest_def isAuthorized_def getUserRole_def)
  have b: "pathEmployeeId (exRequest ''CLOCK_IN'') = Some ''E1''" by (simp add: exRequest_def)
  have c: "''E1'' \<noteq> []" by simp
  have d: "getUserRole (exRequest ''CLOCK_IN'') = Some ''employee'' \<longrightarrow>
           getRequestingUser (exRequest ''CLOCK_IN'') = Some ''E1''"
    by (simp add: exRequest_def getRequestingUser_def truthy_def)
  have e: "personalData exWorld ''E1'' \<noteq> None" by (simp add: exWorld_def)
  have f: "(\<lambda>e. []) ''E1'' = ([] :: timestamp_log list)" by simp
  from empty_ledger_sequence[OF a b c d e f] show ?thesis .
qed

section \<open>Properties of the timesheet\<close>

text \<open>The loop over the logs of the concrete ledgers.\<close>

lemma exLog_fields:
  "employeeId (exLog ty t n h) = ''E1''" "timestampType (exLog ty t n h) = ty"
  "timestamp (exLog ty t n h) = t" "sequenceNumber (exLog ty t n h) = n"
  "hashChain (exLog ty t n h) = h" "wbsCode (exLog ty t n h) = Some ''W1''"
  "location (exLog ty t n h) = None"
  by (simp_all add: exLog_def)

lemma dateOnly_jan1_break:
  "dateOnly 1735725600000 = ''2025-01-01''" "dateOnly 1735726500000 = ''2025-01-01''"
  "dateOnly 1735722018000 = ''2025-01-01''"
  by (simp_all add: dateOnly_def splitT0_def iso_defs Let_def cong: let_weak_cong)

lemma dateOnly_week:
  "dateOnly 1736150400000 = ''2025-01-06''" "dateOnly 1736182800000 = ''2025-01-06''"
  "dateOnly 1736236800000 = ''2025-01-07''" "dateOnly 1736269200000 = ''2025-01-07''"
  "dateOnly 1736323200000 = ''2025-01-08''" "dateOnly 1736355600000 = ''2025-01-08''"
  "dateOnly 1736409600000 = ''2025-01-09''" "dateOnly 1736442000000 = ''2025-01-09''"
  "dateOnly 1736496000000 = ''2025-01-10''" "dateOnly 1736528400000 = ''2025-01-10''"
  by (simp_all add: dateOnly_def splitT0_def iso_defs Let_def cong: let_weak_cong)


lemma sort_exFiveDays: "sort_key timestamp exFiveDays = exFiveDays"
  by (simp add: exFiveDays_def exLog_fields)

lemma sort_exShortShift: "sort_key timestamp exShortShift = exShortShift"
  by (simp add: exShortShift_def exLog_fields)


lemma loop_exFiveDays:
  "map (\<lambda>(d, dy). (d, map seg_totalHours (acc_allocations dy)))
       (payrollLoop exFiveDays [] None None) =
     [(''2025-01-06'', [9]), (''2025-01-07'', [9]), (''2025-01-08'', [9]),
      (''2025-01-09'', [9]), (''2025-01-10'', [9])]"
  by (simp add: exFiveDays_def exLog_fields dateOnly_week
      closesSegment_def opensSegment_def num_defs exact_doubles Let_def cong: let_weak_cong)

lemma toFixed3_1005:
  "toFixed 3 (1131529406376837 / 1125899906842624) = 1131529406376837 / 1125899906842624"
  by (simp add: double_eval Let_def cong: let_weak_cong)

lemma loop_exShortShift:
  "map (\<lambda>(d, dy). (d, map seg_totalHours (acc_allocations dy)))
       (payrollLoop exShortShift [] None None) =
     [(''2025-01-01'', [1131529406376837 / 1125899906842624])]"
  by (simp add: exShortShift_def exLog_fields dateOnly_jan1_in dateOnly_jan1_break
      closesSegment_def opensSegment_def num_defs toDouble_1005 toFixed3_1005 Let_def
      cong: let_weak_cong)

lemma toISOString_jan7: "toISOString 1736240400000 = ''2025-01-07T09:00:00.000Z''"
  by (simp add: iso_defs Let_def cong: let_weak_cong)

text \<open>The daily totals and the weekly summary, from what the loop leaves.\<close>

lemma finishDay_fields:
  "day_totalHours (finishDay dy) = numSum (map seg_totalHours (acc_allocations dy))"
  "dailyRegularHours (finishDay dy) = min (day_totalHours (finishDay dy)) 8"
  "dailyOvertimeHours (finishDay dy) = max 0 (numSub (day_totalHours (finishDay dy)) 8)"
  "day_allocations (finishDay dy) = acc_allocations dy"
  by (simp_all add: finishDay_def Let_def)

lemma finished_totals:
  "map (\<lambda>(d, dy). (d, day_totalHours dy)) (map (\<lambda>(d, dy). (d, finishDay dy)) xs) =
   map (\<lambda>(d, hs). (d, numSum hs))
     (map (\<lambda>(d, dy). (d, map seg_totalHours (acc_allocations dy))) xs)"
proof (induction xs)
  case Nil
  show ?case by simp
next
  case (Cons x xs)
  obtain d dy where x: "x = (d, dy)" by (cases x)
  show ?case using Cons.IH by (simp only: x list.map prod.case finishDay_fields(1))
qed

lemma dailyBreakdown_totals:
  "map (\<lambda>(d, dy). (d, day_totalHours dy)) (dailyBreakdown (calculatePayrollDetails logs)) =
   map (\<lambda>(d, hs). (d, numSum hs))
     (map (\<lambda>(d, dy). (d, map seg_totalHours (acc_allocations dy)))
        (payrollLoop (sort_key timestamp logs) [] None None))"
  unfolding calculatePayrollDetails_def Let_def payroll.simps by (rule finished_totals)

lemma map_eq_of_list_all:
  "list_all (\<lambda>d. f d = g (h d)) days \<Longrightarrow> map f days = map g (map h days)"
  by (induction days) simp_all

lemma split_by_totals:
  assumes "list_all (\<lambda>d. dailyRegularHours d = min (day_totalHours d) 8 \<and>
                  dailyOvertimeHours d = max 0 (numSub (day_totalHours d) 8)) days"
  shows "map dailyRegularHours days = map (\<lambda>t. min t 8) (map day_totalHours days) \<and>
         map dailyOvertimeHours days = map (\<lambda>t. max 0 (numSub t 8)) (map day_totalHours days)"
proof -
  from assms have "list_all (\<lambda>d. dailyRegularHours d = (\<lambda>t. min t 8) (day_totalHours d)) days"
    and "list_all (\<lambda>d. dailyOvertimeHours d = (\<lambda>t. max 0 (numSub t 8)) (day_totalHours d)) days"
    unfolding list_all_iff by blast+
  then show ?thesis by (intro conjI map_eq_of_list_all)
qed

lemma dailyBreakdown_split:
  "list_all (\<lambda>d. dailyRegularHours d = min (day_totalHours d) 8 \<and>
                  dailyOvertimeHours d = max 0 (numSub (day_totalHours d) 8))
     (map snd (dailyBreakdown (calculatePayrollDetails logs)))"
  by (simp add: calculatePayrollDetails_def Let_def list_all_iff finishDay_fields case_prod_beta)

lemma weeklySummary_days:
  "weeklySummary (calculatePayrollDetails logs) =
     weeklyTotals (map snd (dailyBreakdown (calculatePayrollDetails logs)))"
  by (simp add: calculatePayrollDetails_def Let_def)

lemma totals_exFiveDays:
  "map (\<lambda>(d, dy). (d, day_totalHours dy)) (dailyBreakdown (calculatePayrollDetails exFiveDays)) =
     [(''2025-01-06'', 9), (''2025-01-07'', 9), (''2025-01-08'', 9), (''2025-01-09'', 9), (''2025-01-10'', 9)]"
  by (simp add: dailyBreakdown_totals sort_exFiveDays loop_exFiveDays num_defs exact_doubles)

lemma weekly_exFiveDays:
  "ws_regularHours (weeklySummary (calculatePayrollDetails exFiveDays)) = 40 \<and>
   ws_overtimeHours (weeklySummary (calculatePayrollDetails exFiveDays)) = 5"
proof -
  define days where "days = map snd (dailyBreakdown (calculatePayrollDetails exFiveDays))"
  have "map day_totalHours days = map snd (map (\<lambda>(d, dy). (d, day_totalHours dy)) (dailyBreakdown (calculatePayrollDetails exFiveDays)))"
    by (simp add: days_def case_prod_beta comp_def)
  then have t: "map day_totalHours days = [9, 9, 9, 9, 9]" by (simp add: totals_exFiveDays)
  have "list_all (\<lambda>d. dailyRegularHours d = min (day_totalHours d) 8 \<and>
                  dailyOvertimeHours d = max 0 (numSub (day_totalHours d) 8)) days"
    unfolding days_def by (rule dailyBreakdown_split)
  from split_by_totals[OF this] t
  have r: "map dailyRegularHours days = [8, 8, 8, 8, 8]" and o: "map dailyOvertimeHours days = [1, 1, 1, 1, 1]"
    by (simp_all add: num_defs exact_doubles)
  have "weeklySummary (calculatePayrollDetails exFiveDays) = weeklyTotals days"
    by (simp add: weeklySummary_days days_def)
  then show ?thesis by (simp add: weeklyTotals_def Let_def r o t num_defs exact_doubles)
qed

text \<open>
  The weekly summary rounds the double, not the decimal: the shift of 1.005 hours is a
  day of the double nearest to 1.005, which lies below it, and the week reports 1 regular
  hour.
\<close>

lemma double_1005:
  "toDouble (1131529406376837 / 1125899906842624) = 1131529406376837 / 1125899906842624"
  using toDouble_idem_dyadic[of 1131529406376837 50] by simp

lemma toFixed2_1005: "toFixed 2 (1131529406376837 / 1125899906842624) = 1"
  using toFixed_1005 unfolding toDouble_1005 .

lemma totals_exShortShift:
  "map (\<lambda>(d, dy). (d, day_totalHours dy)) (dailyBreakdown (calculatePayrollDetails exShortShift)) =
     [(''2025-01-01'', 1131529406376837 / 1125899906842624)]"
  by (simp add: dailyBreakdown_totals sort_exShortShift loop_exShortShift numSum_def numAdd_def
      double_1005)

lemma weekly_exShortShift:
  "ws_regularHours (weeklySummary (calculatePayrollDetails exShortShift)) = 1 \<and>
   ws_overtimeHours (weeklySummary (calculatePayrollDetails exShortShift)) = 0"
proof -
  define x :: rat where "x = 1131529406376837 / 1125899906842624"
  define days where "days = map snd (dailyBreakdown (calculatePayrollDetails exShortShift))"
  have "map day_totalHours days = map snd (map (\<lambda>(d, dy). (d, day_totalHours dy)) (dailyBreakdown (calculatePayrollDetails exShortShift)))"
    by (simp add: days_def case_prod_beta comp_def)
  then have t: "map day_totalHours days = [x]"
    unfolding totals_exShortShift x_def by simp
  have xd: "toDouble x = x" unfolding x_def by (rule double_1005)
  have xf: "toFixed 2 x = 1" unfolding x_def by (rule toFixed2_1005)
  have x8: "x \<le> 8" "x - 8 \<le> 0" "x - 40 \<le> 0" by (simp_all add: x_def)
  have o8: "max 0 (numSub x 8) = 0"
    using toDouble_nonpos[OF x8(2)] by (simp add: numSub_def max_def)
  have o40: "max 0 (numSub x 40) = 0"
    using toDouble_nonpos[OF x8(3)] by (simp add: numSub_def max_def)
  have m8: "min x 8 = x" using x8(1) by (simp add: min_def)
  have sx: "numSum [x] = x" by (simp add: numSum_def numAdd_def xd)
  have s0: "numSum [0] = 0" by (simp add: numSum_def numAdd_def toDouble_zero)
  have sub0: "numSub x 0 = x" by (simp add: numSub_def xd)
  have add0: "numAdd 0 0 = 0" by (simp add: numAdd_def toDouble_zero)
  have "list_all (\<lambda>d. dailyRegularHours d = min (day_totalHours d) 8 \<and>
                  dailyOvertimeHours d = max 0 (numSub (day_totalHours d) 8)) days"
    unfolding days_def by (rule dailyBreakdown_split)
  from split_by_totals[OF this]
  have r: "map dailyRegularHours days = [x]" and o: "map dailyOvertimeHours days = [0]"
    unfolding t by (simp_all only: list.map m8 o8)
  have "weeklySummary (calculatePayrollDetails exShortShift) = weeklyTotals days"
    by (simp add: weeklySummary_days days_def)
  then show ?thesis
    unfolding weeklyTotals_def Let_def r o t sx s0 o40 sub0 add0 xf
    by (simp add: toFixed_zero)
qed

text \<open>
  Claim C2. The weekly summary sums the regular hours of the days; what that sum has
  above 40 is taken out of the weekly regular hours and is the weekly overtime; the
  overtime reported is the weekly overtime plus the sum of the days' overtime. The sums
  and differences are those of doubles, and both results are written to two places.
  Each day's regular hours are its total capped at 8 and its overtime is what the total
  has above 8. For five days of 9 hours each the summary reports 40 regular hours and
  5 overtime hours.
\<close>

theorem weekly_summary_formula:
  "(let p = calculatePayrollDetails logs;
        days = map snd (dailyBreakdown p);
        R = numSum (map dailyRegularHours days);
        weeklyOvertime = max 0 (numSub R 40);
        ot = numSum (map dailyOvertimeHours days)
    in ws_regularHours (weeklySummary p) = toFixed 2 (numSub R weeklyOvertime) \<and>
       ws_overtimeHours (weeklySummary p) = toFixed 2 (numAdd weeklyOvertime ot) \<and>
       list_all (\<lambda>d. dailyRegularHours d = min (day_totalHours d) 8 \<and>
                      dailyOvertimeHours d = max 0 (numSub (day_totalHours d) 8)) days) \<and>
   map (\<lambda>(d, dy). (d, day_totalHours dy)) (dailyBreakdown (calculatePayrollDetails exFiveDays)) =
     [(''2025-01-06'', 9), (''2025-01-07'', 9), (''2025-01-08'', 9), (''2025-01-09'', 9), (''2025-01-10'', 9)] \<and>
   ws_regularHours (weeklySummary (calculatePayrollDetails exFiveDays)) = 40 \<and>
   ws_overtimeHours (weeklySummary (calculatePayrollDetails exFiveDays)) = 5"
proof -
  define days where "days = map snd (dailyBreakdown (calculatePayrollDetails logs))"
  have w: "weeklySummary (calculatePayrollDetails logs) = weeklyTotals days"
    unfolding days_def by (rule weeklySummary_days)
  have "ws_regularHours (weeklySummary (calculatePayrollDetails logs)) =
          toFixed 2 (numSub (numSum (map dailyRegularHours days))
             (max 0 (numSub (numSum (map dailyRegularHours days)) 40)))"
    unfolding w by (simp add: weeklyTotals_def Let_def)
  moreover have "ws_overtimeHours (weeklySummary (calculatePayrollDetails logs)) =
          toFixed 2 (numAdd (max 0 (numSub (numSum (map dailyRegularHours days)) 40))
             (numSum (map dailyOvertimeHours days)))"
    unfolding w by (simp add: weeklyTotals_def Let_def)
  moreover have "list_all (\<lambda>d. dailyRegularHours d = min (day_totalHours d) 8 \<and>
                      dailyOvertimeHours d = max 0 (numSub (day_totalHours d) 8)) days"
    unfolding days_def by (rule dailyBreakdown_split)
  ultimately show ?thesis
    using totals_exFiveDays weekly_exFiveDays
    unfolding days_def by (simp only: Let_def)
qed











text \<open>
  Claim C9, at the failing input: one event at 2025-01-07T09:00:00.000Z and the range
  2025-01-01 to 2025-01-07. The sort key of the event is its full ISO text, which as a
  string lies after the end parameter \<open>2025-01-07\<close>: the event is not fetched and
  the handler answers that the range has no logs. As a start date the same day does
  include the event.
\<close>

theorem end_date_events_not_fetched:
  "dateOnly 1736240400000 = ''2025-01-07'' \<and>
   fetchAllLogsForRange ((\<lambda>e. [])(''E1'' := [exLog ''CLOCK_IN'' 1736240400000 1 ''GENESIS'']))
      ''E1'' ''2025-01-01'' ''2025-01-07'' = [] \<and>
   generateTimesheet exWorld (exAdmin [''startDate'' \<mapsto> ''2025-01-01'', ''endDate'' \<mapsto> ''2025-01-07''])
      ((\<lambda>e. [])(''E1'' := [exLog ''CLOCK_IN'' 1736240400000 1 ''GENESIS''])) = Inl NoLogsInRange \<and>
   fetchAllLogsForRange ((\<lambda>e. [])(''E1'' := [exLog ''CLOCK_IN'' 1736240400000 1 ''GENESIS'']))
      ''E1'' ''2025-01-07'' ''2025-01-08'' = [exLog ''CLOCK_IN'' 1736240400000 1 ''GENESIS'']"
proof -
  have d: "dateOnly 1736240400000 = ''2025-01-07''"
    by (simp add: dateOnly_def splitT0_def toISOString_jan7)
  have b1: "\<not> between (toISOString 1736240400000) ''2025-01-01'' ''2025-01-07''"
    by (simp add: toISOString_jan7 between_def)
  have b2: "between (toISOString 1736240400000) ''2025-01-07'' ''2025-01-08''"
    by (simp add: toISOString_jan7 between_def)
  have f1: "fetchAllLogsForRange ((\<lambda>e. [])(''E1'' := [exLog ''CLOCK_IN'' 1736240400000 n ''GENESIS'']))
      ''E1'' ''2025-01-01'' ''2025-01-07'' = []" for n
    using b1 by (simp add: fetchAllLogsForRange_def exLog_fields)
  have f2: "fetchAllLogsForRange ((\<lambda>e. [])(''E1'' := [exLog ''CLOCK_IN'' 1736240400000 n ''GENESIS'']))
      ''E1'' ''2025-01-07'' ''2025-01-08'' = [exLog ''CLOCK_IN'' 1736240400000 n ''GENESIS'']" for n
    using b2 by (simp add: fetchAllLogsForRange_def exLog_fields)
  have g: "generateTimesheet exWorld (exAdmin [''startDate'' \<mapsto> ''2025-01-01'', ''endDate'' \<mapsto> ''2025-01-07''])
      ((\<lambda>e. [])(''E1'' := [exLog ''CLOCK_IN'' 1736240400000 1 ''GENESIS''])) = Inl NoLogsInRange"
    by (simp add: generateTimesheet_def f1 exAdmin_def exWorld_def isAuthorized_def getUserRole_def
        truthy_def Let_def cong: let_weak_cong)
  from d f1[of 1] f2[of 1] g show ?thesis by blast
qed
theorem end_date_events_not_fetched_witness:
  "generateTimesheet exWorld (exAdmin [''startDate'' \<mapsto> ''2025-01-01'', ''endDate'' \<mapsto> ''2025-01-07''])
      ((\<lambda>e. [])(''E1'' := [exLog ''CLOCK_IN'' 1736240400000 1 ''GENESIS''])) = Inl NoLogsInRange"
  using end_date_events_not_fetched by blast


section \<open>Properties of the attendance record\<close>

lemma attendanceBreaks_error:
  "attendanceBreaks logs acc cur = Inl e \<Longrightarrow> e = ExcessiveBreakDuration"
  by (induction logs acc cur rule: attendanceBreaks.induct) (auto simp: Let_def split: if_splits)

lemma find_type_None:
  "(find (\<lambda>l. timestampType l = ty) logs = None) = (ty \<notin> set (map timestampType logs))"
  by (auto simp: find_None_iff)

text \<open>
  Claim C7, amended. The aggregation of a day's events fails with
  \<open>MissingClockBoundary\<close> exactly when the events hold no \<open>CLOCK_IN\<close> or no
  \<open>CLOCK_OUT\<close>; so a day without a \<open>CLOCK_OUT\<close> is rejected, and a day with more
  than one \<open>CLOCK_IN\<close> or \<open>CLOCK_OUT\<close> is not rejected on this ground (the first of
  each is taken).
\<close>

theorem missing_clock_boundary_iff:
  "(processTimestampLogs w logs = Inl MissingClockBoundary) =
     (''CLOCK_IN'' \<notin> set (map timestampType logs) \<or> ''CLOCK_OUT'' \<notin> set (map timestampType logs))"
proof (cases "find (\<lambda>l. timestampType l = ''CLOCK_IN'') logs")
  case None
  then show ?thesis using find_type_None[of "''CLOCK_IN''" logs]
    by (simp add: processTimestampLogs_def)
next
  case (Some clockIn)
  note ci = this
  show ?thesis
  proof (cases "find (\<lambda>l. timestampType l = ''CLOCK_OUT'') logs")
    case None
    then show ?thesis using find_type_None[of "''CLOCK_OUT''" logs] ci
      by (simp add: processTimestampLogs_def)
  next
    case (Some clockOut)
    have "processTimestampLogs w logs \<noteq> Inl MissingClockBoundary"
      using ci Some attendanceBreaks_error[of logs 0 None]
      by (auto simp: processTimestampLogs_def Let_def split: sum.splits)
    moreover have "''CLOCK_IN'' \<in> set (map timestampType logs)"
      using ci find_type_None[of "''CLOCK_IN''" logs] by simp
    moreover have "''CLOCK_OUT'' \<in> set (map timestampType logs)"
      using Some find_type_None[of "''CLOCK_OUT''" logs] by simp
    ultimately show ?thesis by simp
  qed
qed

theorem missing_clock_boundary_iff_witness:
  "processTimestampLogs exWorld
     [exLog ''CLOCK_IN'' 1735718400000 1 ''GENESIS'', exLog ''BREAK_START'' 1735725600000 2 ''h1'']
   = Inl MissingClockBoundary"
proof -
  have "''CLOCK_OUT'' \<notin> set (map timestampType
     [exLog ''CLOCK_IN'' 1735718400000 1 ''GENESIS'', exLog ''BREAK_START'' 1735725600000 2 ''h1''])"
    by (simp add: exLog_fields)
  then show ?thesis using missing_clock_boundary_iff[of exWorld
     "[exLog ''CLOCK_IN'' 1735718400000 1 ''GENESIS'', exLog ''BREAK_START'' 1735725600000 2 ''h1'']"]
    by blast
qed

text \<open>
  The day that refutes claim C7 as stated: two \<open>CLOCK_IN\<close> events (08:00 and 13:00)
  and two \<open>CLOCK_OUT\<close> events (12:00 and 17:00). The aggregation succeeds, with the
  4 hours between the first \<open>CLOCK_IN\<close> and the first \<open>CLOCK_OUT\<close>.
\<close>

theorem two_clock_ins_accepted_counterexample:
  "length (filter (\<lambda>l. timestampType l = ''CLOCK_IN'') exTwoShifts) = 2 \<and>
   map_sum id att_totalHours (processTimestampLogs exWorld exTwoShifts) = Inr 4"
  by (simp add: exTwoShifts_def exLog_fields processTimestampLogs_def exWorld_def truthy_def
      num_defs exact_doubles Let_def cong: let_weak_cong)

lemma createAttendance_accepted:
  assumes "createAttendanceRecord c w uuid now ev tbl tt = (Inr aid, tt1)"
  shows "truthy (body ev ''employeeId'') \<and> truthy (body ev ''attendanceDate'') \<and> aid = uuid \<and>
         (\<exists>item. tt1 = tt \<lparr> attendanceItems := attendanceItems tt @ [item] \<rparr> \<and>
                 attendanceId item = uuid \<and>
                 att_employeeId item = the (body ev ''employeeId'') \<and>
                 attendanceDate item = the (body ev ''attendanceDate''))"
  using assms
  by (auto simp: createAttendanceRecord_def putAttendance_def Let_def
      split: if_splits sum.splits)

lemma createAttendance_rejected:
  "fst (createAttendanceRecord c w uuid now ev tbl tt) = Inl e \<Longrightarrow>
   snd (createAttendanceRecord c w uuid now ev tbl tt) = tt"
  by (auto simp: createAttendanceRecord_def Let_def split: if_splits sum.splits)

text \<open>
  Claim C8, amended. The write is guarded by the existence check on (employee, date)
  and by a condition on the item's own key, the fresh attendance id. After a call
  that created a record, every later call for the same employee and date fails and
  leaves the table, the first record in it, as it was; it fails with \<open>Conflict\<close>
  whenever the call is authorized, passes the field check and is made by the employee.
\<close>

theorem second_attendance_call_conflicts:
  assumes "createAttendanceRecord c w uuid1 now1 ev1 tbl1 tt = (Inr aid, tt1)"
    and "body ev2 ''employeeId'' = body ev1 ''employeeId''"
    and "body ev2 ''attendanceDate'' = body ev1 ''attendanceDate''"
  shows "(\<exists>item. attendanceItems tt1 = attendanceItems tt @ [item] \<and> attendanceId item = aid) \<and>
         (\<exists>e. createAttendanceRecord c w uuid2 now2 ev2 tbl2 tt1 = (Inl e, tt1)) \<and>
         (isAuthorized ev2 [''employee''] \<and>
          validateBody c (body ev2) [''employeeId'', ''attendanceDate'', ''workMode''] \<and>
          getRequestingUser ev2 = body ev2 ''employeeId''
          \<longrightarrow> createAttendanceRecord c w uuid2 now2 ev2 tbl2 tt1 = (Inl Conflict, tt1))"
proof -
  from createAttendance_accepted[OF assms(1)] obtain item where
    t: "truthy (body ev1 ''employeeId'')" "truthy (body ev1 ''attendanceDate'')" "aid = uuid1"
    and i: "tt1 = tt \<lparr> attendanceItems := attendanceItems tt @ [item] \<rparr>" "attendanceId item = uuid1"
      "att_employeeId item = the (body ev1 ''employeeId'')"
      "attendanceDate item = the (body ev1 ''attendanceDate'')"
    by blast
  have ex: "existingAttendance tt1 (the (body ev2 ''employeeId'')) (the (body ev2 ''attendanceDate'')) \<noteq> []"
    using i assms(2,3) by (simp add: existingAttendance_def)
  have a: "\<exists>item. attendanceItems tt1 = attendanceItems tt @ [item] \<and> attendanceId item = aid"
    using i t(3) by auto
  have b: "\<exists>e. createAttendanceRecord c w uuid2 now2 ev2 tbl2 tt1 = (Inl e, tt1)"
    using ex by (auto simp: createAttendanceRecord_def Let_def)
  have d: "createAttendanceRecord c w uuid2 now2 ev2 tbl2 tt1 = (Inl Conflict, tt1)"
    if "isAuthorized ev2 [''employee'']"
      "validateBody c (body ev2) [''employeeId'', ''attendanceDate'', ''workMode'']"
      "getRequestingUser ev2 = body ev2 ''employeeId''"
    using that ex t assms(2,3)
    by (auto simp: createAttendanceRecord_def Let_def truthy_def split: option.splits)
  from a b d show ?thesis by blast
qed

text \<open>
  What refutes claim C8 as stated: the conditional write is keyed on the attendance id,
  not on (employee, date). Put on a table that holds a record of E1 for 2025-01-01, a
  second record of E1 for 2025-01-01 under another id is written.
\<close>

theorem unique_by_id_only_counterexample:
  "att_employeeId (exAttendance ''a-1'') = att_employeeId (exAttendance ''a-2'') \<and>
   attendanceDate (exAttendance ''a-1'') = attendanceDate (exAttendance ''a-2'') \<and>
   putAttendance \<lparr> leaveItems = [], attendanceItems = [exAttendance ''a-1''] \<rparr> (exAttendance ''a-2'') =
     Inr \<lparr> leaveItems = [], attendanceItems = [exAttendance ''a-1'', exAttendance ''a-2''] \<rparr>"
  by (simp add: putAttendance_def exAttendance_def)

lemma ex_logs_for_date:
  "getLogsForDate ((\<lambda>e. [])(''E1'' := exBreakDay)) ''E1'' ''2025-01-01'' = Inr exBreakDay"
  by (simp add: getLogsForDate_def exBreakDay_def exLog_fields dateOnly_jan1_in dateOnly_jan1_out
      dateOnly_jan1_break Let_def cong: let_weak_cong)

lemma ex_process_break_day:
  "\<exists>d. processTimestampLogs exWorld exBreakDay = Inr d \<and> att_totalHours d = 31 / 4"
  by (simp add: exBreakDay_def exLog_fields processTimestampLogs_def exWorld_def truthy_def
      num_defs exact_doubles Let_def cong: let_weak_cong)

lemma ex_first_attendance:
  "fst (createAttendanceRecord exCollab exWorld ''a-1'' 1735750800000 (exAttendanceRequest ''2025-01-01'')
          ((\<lambda>e. [])(''E1'' := exBreakDay)) \<lparr> leaveItems = [], attendanceItems = [] \<rparr>) = Inr ''a-1''"
proof -
  obtain d where d: "processTimestampLogs exWorld exBreakDay = Inr d" using ex_process_break_day by blast
  show ?thesis
    by (simp add: createAttendanceRecord_def exAttendanceRequest_def exCollab_def isAuthorized_def
        getUserRole_def getRequestingUser_def truthy_def existingAttendance_def validateLeaveConflict_def
        ex_logs_for_date d putAttendance_def Let_def cong: let_weak_cong)
qed

theorem second_attendance_call_conflicts_witness:
  "fst (createAttendanceRecord exCollab exWorld ''a-1'' 1735750800000 (exAttendanceRequest ''2025-01-01'')
          ((\<lambda>e. [])(''E1'' := exBreakDay)) \<lparr> leaveItems = [], attendanceItems = [] \<rparr>) = Inr ''a-1'' \<and>
   createAttendanceRecord exCollab exWorld ''a-2'' 1735754400000 (exAttendanceRequest ''2025-01-01'')
       ((\<lambda>e. [])(''E1'' := exBreakDay))
       (snd (createAttendanceRecord exCollab exWorld ''a-1'' 1735750800000 (exAttendanceRequest ''2025-01-01'')
          ((\<lambda>e. [])(''E1'' := exBreakDay)) \<lparr> leaveItems = [], attendanceItems = [] \<rparr>))
     = (Inl Conflict,
        snd (createAttendanceRecord exCollab exWorld ''a-1'' 1735750800000 (exAttendanceRequest ''2025-01-01'')
          ((\<lambda>e. [])(''E1'' := exBreakDay)) \<lparr> leaveItems = [], attendanceItems = [] \<rparr>))"
proof -
  define first where "first = createAttendanceRecord exCollab exWorld ''a-1'' 1735750800000
      (exAttendanceRequest ''2025-01-01'') ((\<lambda>e. [])(''E1'' := exBreakDay))
      \<lparr> leaveItems = [], attendanceItems = [] \<rparr>"
  have f: "fst first = Inr ''a-1''" unfolding first_def by (rule ex_first_attendance)
  then have eq: "createAttendanceRecord exCollab exWorld ''a-1'' 1735750800000
      (exAttendanceRequest ''2025-01-01'') ((\<lambda>e. [])(''E1'' := exBreakDay))
      \<lparr> leaveItems = [], attendanceItems = [] \<rparr> = (Inr ''a-1'', snd first)"
    unfolding first_def by (metis prod.collapse)
  have pass: "isAuthorized (exAttendanceRequest ''2025-01-01'') [''employee''] \<and>
          validateBody exCollab (body (exAttendanceRequest ''2025-01-01'')) [''employeeId'', ''attendanceDate'', ''workMode''] \<and>
          getRequestingUser (exAttendanceRequest ''2025-01-01'') = body (exAttendanceRequest ''2025-01-01'') ''employeeId''"
    by (simp add: exAttendanceRequest_def exCollab_def isAuthorized_def getUserRole_def
        getRequestingUser_def truthy_def)
  from second_attendance_call_conflicts[OF eq refl refl, of "''a-2''" 1735754400000 "(\<lambda>e. [])(''E1'' := exBreakDay)"] pass
  have "createAttendanceRecord exCollab exWorld ''a-2'' 1735754400000 (exAttendanceRequest ''2025-01-01'')
       ((\<lambda>e. [])(''E1'' := exBreakDay)) (snd first) = (Inl Conflict, snd first)"
    by blast
  with f show ?thesis unfolding first_def by blast
qed

end
